theory Spec2Isabelle
  imports Main "HOL-Library.Word" "HOL-Library.Sublist"
begin

unbundle bit_operations_syntax

text \<open>
  A shallow embedding of DaapClient.js, a client of the DAAP protocol: the decoder of
  chunks (DaapPacket.js), the extraction of fields and media items
  (DatabaseRequestHandler.js), the handlers of the login, update and database requests,
  the login listener, the HTTP client and the client itself. Exceptions are values of a
  sum type, the variables of the client's closure are a record that every operation
  returns updated, and what the client does to its caller and to the network is a list of
  events.
\<close>

section \<open>JavaScript values used by DaapClient.js\<close>

text \<open>
  A JavaScript string is a sequence of 16-bit code units. The response text of the
  XMLHttpRequest is read with the charset \<^verbatim>\<open>x-user-defined\<close>, so every code unit carries
  one byte of the response in its low 8 bits.
\<close>

type_synonym jschar = "16 word"
type_synonym jsstring = "jschar list"

text \<open>A string literal of the source, written with Isabelle characters.\<close>

definition str :: "string \<Rightarrow> jsstring" where
  "str s = map of_char s"

text \<open>
  The exceptions that the code can raise: its own \<^verbatim>\<open>EndOfPacketException\<close>, the
  \<^verbatim>\<open>TypeError\<close> of a method call on \<^verbatim>\<open>null\<close>, and \<^verbatim>\<open>new Error(message)\<close>.
\<close>

datatype js_error = EndOfPacketException | TypeError | Error string

text \<open>\<^verbatim>\<open>s.charCodeAt(i)\<close>: the code unit at \<open>i\<close>, or \<^verbatim>\<open>NaN\<close> (here \<open>None\<close>) out of range.\<close>

definition charCodeAt :: "jsstring \<Rightarrow> nat \<Rightarrow> int option" where
  "charCodeAt s i = (if i < length s then Some (uint (s ! i)) else None)"

text \<open>\<^verbatim>\<open>ToInt32\<close> of a number: \<^verbatim>\<open>NaN\<close> becomes 0, an integer is wrapped to 32 signed bits.\<close>

definition ToInt32 :: "int option \<Rightarrow> int" where
  "ToInt32 x = (case x of None \<Rightarrow> 0 | Some n \<Rightarrow> signed_take_bit 31 n)"

text \<open>The operators \<^verbatim>\<open>x & m\<close>, \<^verbatim>\<open>x << k\<close> and \<^verbatim>\<open>x >> k\<close> on 32-bit signed integers.\<close>

definition js_and :: "int option \<Rightarrow> int \<Rightarrow> int" where
  "js_and x m = ToInt32 x AND ToInt32 (Some m)"

definition js_shl :: "int \<Rightarrow> nat \<Rightarrow> int" where
  "js_shl x k = signed_take_bit 31 (push_bit (k mod 32) (ToInt32 (Some x)))"

definition js_shr :: "int \<Rightarrow> nat \<Rightarrow> int" where
  "js_shr x k = drop_bit (k mod 32) (ToInt32 (Some x))"

text \<open>
  \<^verbatim>\<open>s.substring(a, b)\<close>: both indices are clamped to \<open>[0, length s]\<close> and swapped when
  the first is the larger one.
\<close>

definition substring :: "jsstring \<Rightarrow> int \<Rightarrow> int \<Rightarrow> jsstring" where
  "substring s a b =
     (let len = int (length s);
          fa = min (max a 0) len;
          fb = min (max b 0) len;
          from = min fa fb;
          to = max fa fb
      in take (nat (to - from)) (drop (nat from) s))"

text \<open>
  The conversion of an integer to a string by \<^verbatim>\<open>+\<close> with a string operand: decimal digits,
  with a minus sign for a negative number.
\<close>

definition digit_char :: "nat \<Rightarrow> jschar" where
  "digit_char d = of_nat (48 + d)"

fun digits :: "nat \<Rightarrow> jsstring" where
  "digits n = (if n < 10 then [digit_char n] else digits (n div 10) @ [digit_char (n mod 10)])"

declare digits.simps [simp del]

definition num_to_string :: "int \<Rightarrow> jsstring" where
  "num_to_string n = (if n < 0 then str ''-'' @ digits (nat (- n)) else digits (nat n))"

section \<open>DaapPacket.js\<close>

text \<open>
  The constructor \<^verbatim>\<open>DaapPacket(chunk, start)\<close> keeps two private values, \<^verbatim>\<open>code\<close> and
  \<^verbatim>\<open>data\<close>. Its third private variable, the cursor \<^verbatim>\<open>offset\<close>, is set to 0 at the start
  of \<^verbatim>\<open>seekFirst\<close> and \<^verbatim>\<open>seek\<close>; it is passed explicitly through \<open>readNextChunk\<close> below.
\<close>

record packet =
  code :: jsstring
  data :: jsstring

definition CODE_LENGTH :: int where
  "CODE_LENGTH = 4"

definition SIZE_LENGTH :: int where
  "SIZE_LENGTH = 4"

definition HEADER_LENGTH :: int where
  "HEADER_LENGTH = CODE_LENGTH + SIZE_LENGTH"

definition readUInt32 :: "jsstring \<Rightarrow> nat \<Rightarrow> int" where
  "readUInt32 d offset =
     js_shl (js_and (charCodeAt d offset) 0xFF) 24
     + js_shl (js_and (charCodeAt d (offset + 1)) 0xFF) 16
     + js_shl (js_and (charCodeAt d (offset + 2)) 0xFF) 8
     + js_and (charCodeAt d (offset + 3)) 0xFF"

definition DaapPacket :: "jsstring \<Rightarrow> nat \<Rightarrow> js_error + packet" where
  "DaapPacket chunk start =
     (let len = int (length chunk) - int start in
      if len < HEADER_LENGTH then Inl EndOfPacketException
      else
        let c = substring chunk (int start) (int start + CODE_LENGTH);
            sz = readUInt32 chunk (start + nat CODE_LENGTH)
        in if len < HEADER_LENGTH + sz then Inl EndOfPacketException
           else Inr \<lparr>code = c,
                     data = substring chunk (int start + HEADER_LENGTH)
                              (int start + HEADER_LENGTH + sz)\<rparr>)"

definition codeEquals :: "packet \<Rightarrow> jsstring \<Rightarrow> bool" where
  "codeEquals p other = (code p = other)"

definition packet_size :: "packet \<Rightarrow> int" where
  "packet_size p = int (length (data p)) + HEADER_LENGTH"

definition convertToInt :: "packet \<Rightarrow> int" where
  "convertToInt p = readUInt32 (data p) 0"

definition convertToString :: "packet \<Rightarrow> jsstring" where
  "convertToString p = data p"


text \<open>
  \<^verbatim>\<open>readNextChunk\<close>: decodes one chunk of the data at the cursor and moves the cursor
  past it. The cursor is an argument, and the new cursor is returned with the chunk.
\<close>

definition readNextChunk :: "packet \<Rightarrow> nat \<Rightarrow> js_error + (packet \<times> nat)" where
  "readNextChunk p offset =
     (case DaapPacket (data p) offset of
        Inl e \<Rightarrow> Inl e
      | Inr result \<Rightarrow> Inr (result, offset + nat (packet_size result)))"

text \<open>
  The loop of \<^verbatim>\<open>seekFirst\<close>: it ends at the first chunk whose code matches, or with
  \<^verbatim>\<open>null\<close> when \<^verbatim>\<open>readNextChunk\<close> raises \<^verbatim>\<open>EndOfPacketException\<close>; any other
  exception is raised again.
\<close>

function seekFirst_loop :: "packet \<Rightarrow> jsstring \<Rightarrow> nat \<Rightarrow> js_error + packet option" where
  "seekFirst_loop p refCode offset =
     (case readNextChunk p offset of
        Inr (result, offset') \<Rightarrow>
          if codeEquals result refCode then Inr (Some result)
          else seekFirst_loop p refCode offset'
      | Inl e \<Rightarrow> if e = EndOfPacketException then Inr None else Inl e)"
  by pat_completeness auto
termination
  by (relation "measure (\<lambda>(p, refCode, offset). length (data p) - offset)")
     (auto simp: readNextChunk_def DaapPacket_def packet_size_def HEADER_LENGTH_def
        CODE_LENGTH_def SIZE_LENGTH_def Let_def split: if_splits)

declare seekFirst_loop.simps [simp del]

definition seekFirst :: "packet \<Rightarrow> jsstring \<Rightarrow> js_error + packet option" where
  "seekFirst p refCode = seekFirst_loop p refCode 0"

text \<open>The loop of \<^verbatim>\<open>seek\<close>, with the array \<^verbatim>\<open>result\<close> as an accumulator.\<close>

function seek_loop :: "packet \<Rightarrow> jsstring \<Rightarrow> nat \<Rightarrow> packet list \<Rightarrow> js_error + packet list" where
  "seek_loop p refCode offset result =
     (case readNextChunk p offset of
        Inr (next, offset') \<Rightarrow>
          seek_loop p refCode offset'
            (if codeEquals next refCode then result @ [next] else result)
      | Inl e \<Rightarrow> if e = EndOfPacketException then Inr result else Inl e)"
  by pat_completeness auto
termination
  by (relation "measure (\<lambda>(p, refCode, offset, result). length (data p) - offset)")
     (auto simp: readNextChunk_def DaapPacket_def packet_size_def HEADER_LENGTH_def
        CODE_LENGTH_def SIZE_LENGTH_def Let_def split: if_splits)

declare seek_loop.simps [simp del]

definition seek :: "packet \<Rightarrow> jsstring \<Rightarrow> js_error + packet list" where
  "seek p refCode = seek_loop p refCode 0 []"

text \<open>
  The immediate children of a chunk: the chunks that successive calls of
  \<^verbatim>\<open>readNextChunk\<close> return, from cursor 0 to the first call that raises.
\<close>

function children_from :: "packet \<Rightarrow> nat \<Rightarrow> packet list" where
  "children_from p offset =
     (case readNextChunk p offset of
        Inr (c, offset') \<Rightarrow> c # children_from p offset'
      | Inl e \<Rightarrow> [])"
  by pat_completeness auto
termination
  by (relation "measure (\<lambda>(p, offset). length (data p) - offset)")
     (auto simp: readNextChunk_def DaapPacket_def packet_size_def HEADER_LENGTH_def
        CODE_LENGTH_def SIZE_LENGTH_def Let_def split: if_splits)

declare children_from.simps [simp del]

definition children :: "packet \<Rightarrow> packet list" where
  "children p = children_from p 0"

text \<open>
  The bytes of a buffer as the wire format reads them: the low 8 bits of each code unit,
  and the big-endian unsigned 32-bit value of four of them.
\<close>

definition byte_at :: "jsstring \<Rightarrow> nat \<Rightarrow> nat" where
  "byte_at b i = unat (b ! i) mod 256"

definition be_u32 :: "jsstring \<Rightarrow> nat \<Rightarrow> nat" where
  "be_u32 b i =
     byte_at b i * 2 ^ 24 + byte_at b (i + 1) * 2 ^ 16 + byte_at b (i + 2) * 2 ^ 8
     + byte_at b (i + 3)"


section \<open>DatabaseRequestHandler.js: field extraction and media items\<close>

definition extractInt :: "packet \<Rightarrow> jsstring \<Rightarrow> js_error + int" where
  "extractInt p c =
     (case seekFirst p c of
        Inl e \<Rightarrow> Inl e
      | Inr chunk \<Rightarrow> Inr (case chunk of None \<Rightarrow> - 1 | Some ch \<Rightarrow> convertToInt ch))"

definition extractString :: "packet \<Rightarrow> jsstring \<Rightarrow> js_error + jsstring" where
  "extractString p c =
     (case seekFirst p c of
        Inl e \<Rightarrow> Inl e
      | Inr chunk \<Rightarrow> Inr (case chunk of None \<Rightarrow> [] | Some ch \<Rightarrow> convertToString ch))"

text \<open>The object that \<^verbatim>\<open>createDaapStream\<close> returns.\<close>

record media_item =
  uri :: jsstring
  trackNumber :: int
  title :: jsstring
  album :: jsstring
  artist :: jsstring
  genre :: jsstring
  id_field :: jsstring
  duration :: int
  size_field :: int
  format :: jsstring
  bitrate :: int
  year :: int

text \<open>Sequencing of calls that may raise: the first exception ends the computation.\<close>

definition bindE :: "js_error + 'a \<Rightarrow> ('a \<Rightarrow> js_error + 'b) \<Rightarrow> js_error + 'b" where
  "bindE m f = (case m of Inl e \<Rightarrow> Inl e | Inr x \<Rightarrow> f x)"

text \<open>
  The session id and the revision id are \<^verbatim>\<open>null\<close> (here \<open>None\<close>) or a number; the port is
  \<^verbatim>\<open>undefined\<close> (here \<open>None\<close>) or a number. Concatenated with a string they are printed as
  follows.
\<close>

definition nullable_to_string :: "int option \<Rightarrow> jsstring" where
  "nullable_to_string x = (case x of None \<Rightarrow> str ''null'' | Some n \<Rightarrow> num_to_string n)"

definition optional_to_string :: "int option \<Rightarrow> jsstring" where
  "optional_to_string x = (case x of None \<Rightarrow> str ''undefined'' | Some n \<Rightarrow> num_to_string n)"

definition createDaapStream :: "int option \<Rightarrow> jsstring \<Rightarrow> packet \<Rightarrow> js_error + media_item" where
  "createDaapStream sid server mlit =
     bindE (extractInt mlit (str ''miid'')) (\<lambda>daapSongId.
     bindE (extractString mlit (str ''asfm'')) (\<lambda>songFormat.
     bindE (extractInt mlit (str ''astn'')) (\<lambda>trackNumber.
     bindE (extractString mlit (str ''minm'')) (\<lambda>title.
     bindE (extractString mlit (str ''asal'')) (\<lambda>album.
     bindE (extractString mlit (str ''asar'')) (\<lambda>artist.
     bindE (extractString mlit (str ''asgn'')) (\<lambda>genre.
     bindE (extractInt mlit (str ''astm'')) (\<lambda>duration.
     bindE (extractInt mlit (str ''assz'')) (\<lambda>size.
     bindE (extractInt mlit (str ''asbr'')) (\<lambda>bitrate.
     bindE (extractInt mlit (str ''asyr'')) (\<lambda>year.
     Inr \<lparr>uri = server @ str ''/databases/1/items/'' @ num_to_string daapSongId @ str ''.''
                  @ songFormat @ str ''?session-id='' @ nullable_to_string sid,
           trackNumber = trackNumber,
           title = title,
           album = album,
           artist = artist,
           genre = genre,
           id_field = nullable_to_string sid @ str ''-'' @ num_to_string daapSongId,
           duration = duration,
           size_field = size,
           format = songFormat,
           bitrate = js_shr bitrate 16,
           year = js_shr year 16\<rparr>)))))))))))"

text \<open>The loop of \<^verbatim>\<open>handleResponse\<close> that pushes one stream for each \<^verbatim>\<open>mlit\<close> chunk.\<close>

fun audioStreams_loop :: "int option \<Rightarrow> jsstring \<Rightarrow> packet list \<Rightarrow> js_error + media_item list" where
  "audioStreams_loop sid server [] = Inr []"
| "audioStreams_loop sid server (mlit # mlits) =
     bindE (createDaapStream sid server mlit) (\<lambda>stream.
     bindE (audioStreams_loop sid server mlits) (\<lambda>streams. Inr (stream # streams)))"

definition meta_fields :: "jsstring list" where
  "meta_fields = [str ''dmap.itemid'', str ''daap.songformat'', str ''dmap.itemname'',
     str ''daap.songalbum'', str ''daap.songartist'', str ''daap.songgenre'',
     str ''daap.songtracknumber'', str ''daap.songtime'', str ''daap.songsize'',
     str ''daap.songyear'', str ''daap.songbitrate'']"

text \<open>\<^verbatim>\<open>Array.prototype.join()\<close> on strings: the elements separated by commas.\<close>

fun join :: "jsstring list \<Rightarrow> jsstring" where
  "join [] = []"
| "join [x] = x"
| "join (x # y # ys) = x @ str '','' @ join (y # ys)"


section \<open>DaapClient.js: the client, its requests and the HTTP client\<close>

text \<open>
  The three request handlers, with the values their constructors store. The listener of the
  login and update handlers and the callback of the database handler are the caller's
  callback, whose calls are recorded as events.
\<close>

datatype request =
    LoginRequestHandler
  | UpdateRequestHandler "int option"
  | DatabaseRequestHandler "int option" "int option" jsstring

text \<open>
  What the client does to the outside: a request sent (its URL and its
  \<^verbatim>\<open>Authorization\<close> header), a call of the callback given to \<^verbatim>\<open>login\<close>, a call of the
  callback given to \<^verbatim>\<open>fetchStreams\<close> (with \<open>None\<close> for \<^verbatim>\<open>undefined\<close>), and an exception
  that leaves the handler of a response uncaught.
\<close>

datatype event =
    Sent jsstring "jsstring option"
  | LoginCallback int
  | StreamsCallback int "media_item list option"
  | Uncaught js_error

text \<open>
  The variables of the closure \<^verbatim>\<open>DaapClient(ip, port)\<close>, the private password of its
  HTTP client, whether the browser's \<^verbatim>\<open>XMLHttpRequest\<close> has \<^verbatim>\<open>overrideMimeType\<close>, the
  requests that were sent and wait for their response, and the events so far.
\<close>

record world =
  ip :: jsstring
  port :: "int option"
  server :: jsstring
  encodedPassword :: "jsstring option"
  sid :: "int option"
  rid :: "int option"
  overrideMimeType :: bool
  inflight :: "request list"
  trace :: "event list"

fun getUri :: "request \<Rightarrow> jsstring" where
  "getUri LoginRequestHandler = str ''login''"
| "getUri (UpdateRequestHandler aSid) = str ''update?session-id='' @ nullable_to_string aSid"
| "getUri (DatabaseRequestHandler aSid aRid aServer) =
     str ''databases/1/items?type=music&session-id='' @ nullable_to_string aSid
     @ str ''&revision-id='' @ nullable_to_string aRid @ str ''&meta='' @ join meta_fields"

text \<open>
  \<^verbatim>\<open>DaapHttpClient.execute\<close>, up to \<^verbatim>\<open>xhr.send()\<close>: the request is sent and its handler
  waits for the response.
\<close>

definition request_url :: "world \<Rightarrow> request \<Rightarrow> jsstring" where
  "request_url w request =
     str ''http://'' @ ip w @ str '':'' @ optional_to_string (port w) @ str ''/'' @ getUri request"

definition authorization :: "world \<Rightarrow> jsstring option" where
  "authorization w =
     (case encodedPassword w of None \<Rightarrow> None | Some pw \<Rightarrow> Some (str ''Basic '' @ pw))"

definition execute :: "request \<Rightarrow> world \<Rightarrow> js_error option \<times> world" where
  "execute request w =
     (if \<not> overrideMimeType w
      then (Some (Error ''Your browser does not support binary encoding, aborting ...''), w)
      else (None, w\<lparr>inflight := inflight w @ [request],
                     trace := trace w @ [Sent (request_url w request) (authorization w)]\<rparr>))"

text \<open>LoginListener.js. The caller's callback is recorded in the trace.\<close>

definition LoginListener_sidUpdated :: "int \<Rightarrow> world \<Rightarrow> js_error option \<times> world" where
  "LoginListener_sidUpdated aSid w =
     (let w1 = w\<lparr>sid := Some aSid\<rparr> in execute (UpdateRequestHandler (sid w1)) w1)"

definition LoginListener_ridUpdated :: "int \<Rightarrow> world \<Rightarrow> js_error option \<times> world" where
  "LoginListener_ridUpdated aRid w =
     (let w1 = w\<lparr>rid := Some aRid\<rparr> in (None, w1\<lparr>trace := trace w1 @ [LoginCallback 200]\<rparr>))"

definition LoginListener_fail :: "int \<Rightarrow> world \<Rightarrow> js_error option \<times> world" where
  "LoginListener_fail c w = (None, w\<lparr>trace := trace w @ [LoginCallback c]\<rparr>)"

text \<open>
  \<^verbatim>\<open>handleResponse\<close> of the three handlers. A method call on the \<^verbatim>\<open>null\<close> that
  \<^verbatim>\<open>seekFirst\<close> returned raises \<^verbatim>\<open>TypeError\<close>.
\<close>

fun handleResponse :: "request \<Rightarrow> packet \<Rightarrow> world \<Rightarrow> js_error option \<times> world" where
  "handleResponse LoginRequestHandler packet w =
     (case seekFirst packet (str ''mlid'') of
        Inl e \<Rightarrow> (Some e, w)
      | Inr None \<Rightarrow> (Some TypeError, w)
      | Inr (Some chunk) \<Rightarrow> LoginListener_sidUpdated (convertToInt chunk) w)"
| "handleResponse (UpdateRequestHandler aSid) packet w =
     (case seekFirst packet (str ''musr'') of
        Inl e \<Rightarrow> (Some e, w)
      | Inr None \<Rightarrow> (Some TypeError, w)
      | Inr (Some chunk) \<Rightarrow> LoginListener_ridUpdated (convertToInt chunk) w)"
| "handleResponse (DatabaseRequestHandler aSid aRid aServer) packet w =
     (case seekFirst packet (str ''mlcl'') of
        Inl e \<Rightarrow> (Some e, w)
      | Inr None \<Rightarrow> (Some TypeError, w)
      | Inr (Some mlcl) \<Rightarrow>
          (case seek mlcl (str ''mlit'') of
             Inl e \<Rightarrow> (Some e, w)
           | Inr mlits \<Rightarrow>
               (case audioStreams_loop aSid aServer mlits of
                  Inl e \<Rightarrow> (Some e, w)
                | Inr audioStreams \<Rightarrow>
                    (None, w\<lparr>trace := trace w @ [StreamsCallback 200 (Some audioStreams)]\<rparr>))))"

fun fail :: "request \<Rightarrow> int \<Rightarrow> world \<Rightarrow> js_error option \<times> world" where
  "fail LoginRequestHandler c w = LoginListener_fail c w"
| "fail (UpdateRequestHandler aSid) c w = LoginListener_fail c w"
| "fail (DatabaseRequestHandler aSid aRid aServer) c w =
     (None, w\<lparr>trace := trace w @ [StreamsCallback c None]\<rparr>)"

text \<open>
  \<^verbatim>\<open>xhr.onreadystatechange\<close> at \<^verbatim>\<open>readyState == 4\<close>, with the status and the text of the
  response. The \<^verbatim>\<open>try\<close> block holds the decoding of the response and \<^verbatim>\<open>handleResponse\<close>.
\<close>

definition onreadystatechange :: "request \<Rightarrow> int \<Rightarrow> jsstring \<Rightarrow> world \<Rightarrow> js_error option \<times> world" where
  "onreadystatechange request status responseText w =
     (if status \<noteq> 200 then fail request status w
      else
        (case DaapPacket responseText 0 of
           Inl e \<Rightarrow> if e = EndOfPacketException then fail request 400 w else (Some e, w)
         | Inr packet \<Rightarrow>
             (case handleResponse request packet w of
                (None, w') \<Rightarrow> (None, w')
              | (Some e, w') \<Rightarrow>
                  if e = EndOfPacketException then fail request 400 w' else (Some e, w'))))"

text \<open>
  The browser's event loop with a scripted transport: each reply (status, text) of the list
  answers the oldest request in flight. An exception that leaves the handler is recorded and
  ends that turn only.
\<close>

definition turn :: "world \<Rightarrow> int \<times> jsstring \<Rightarrow> world" where
  "turn w reply =
     (case inflight w of
        [] \<Rightarrow> w
      | request # rest \<Rightarrow>
          (case onreadystatechange request (fst reply) (snd reply) (w\<lparr>inflight := rest\<rparr>) of
             (None, w') \<Rightarrow> w'
           | (Some e, w') \<Rightarrow> w'\<lparr>trace := trace w' @ [Uncaught e]\<rparr>))"

fun run :: "(int \<times> jsstring) list \<Rightarrow> world \<Rightarrow> world" where
  "run [] w = w"
| "run (reply # replies) w = (if inflight w = [] then w else run replies (turn w reply))"

text \<open>The constructor and the public methods of \<^verbatim>\<open>DaapClient\<close>.\<close>

definition DaapClient :: "jsstring \<Rightarrow> int option \<Rightarrow> bool \<Rightarrow> world" where
  "DaapClient ip_arg port_arg has_overrideMimeType =
     \<lparr>ip = ip_arg,
      port = port_arg,
      server = (case port_arg of
                  None \<Rightarrow> str ''http://'' @ ip_arg @ str '':/3689''
                | Some p \<Rightarrow> str ''http://'' @ ip_arg @ str '':'' @ num_to_string p),
      encodedPassword = None,
      sid = None,
      rid = None,
      overrideMimeType = has_overrideMimeType,
      inflight = [],
      trace = []\<rparr>"

definition checkLogin :: "world \<Rightarrow> js_error option" where
  "checkLogin w =
     (if sid w = None \<or> rid w = None then Some (Error ''Login not completed.'') else None)"

definition login :: "world \<Rightarrow> js_error option \<times> world" where
  "login w = execute LoginRequestHandler w"

definition fetchStreams :: "world \<Rightarrow> js_error option \<times> world" where
  "fetchStreams w =
     (case checkLogin w of
        Some e \<Rightarrow> (Some e, w)
      | None \<Rightarrow> execute (DatabaseRequestHandler (sid w) (rid w) (server w)) w)"

text \<open>
  A call of \<^verbatim>\<open>login\<close> or \<^verbatim>\<open>fetchStreams\<close> followed by the event loop on the transport's
  replies. The first component is the exception that the call itself raised to its caller.
\<close>

definition login_run :: "(int \<times> jsstring) list \<Rightarrow> world \<Rightarrow> js_error option \<times> world" where
  "login_run replies w =
     (case login w of
        (Some e, w') \<Rightarrow> (Some e, w')
      | (None, w') \<Rightarrow> (None, run replies w'))"

definition fetchStreams_run :: "(int \<times> jsstring) list \<Rightarrow> world \<Rightarrow> js_error option \<times> world" where
  "fetchStreams_run replies w =
     (case fetchStreams w of
        (Some e, w') \<Rightarrow> (Some e, w')
      | (None, w') \<Rightarrow> (None, run replies w'))"

section \<open>The media item of the specification\<close>

text \<open>
  The media item as the specification describes it, for comparison with
  \<open>createDaapStream\<close>: a field is the value of the first child of the \<open>mlit\<close> chunk
  with the field's tag, or the sentinel -1 or the empty string when there is none; the
  bit rate and the year are shifted right by 16 bits, that is divided by 65536 and rounded
  down, which drops the low 16 bits and keeps the sign.
\<close>

definition field_int :: "packet \<Rightarrow> jsstring \<Rightarrow> int" where
  "field_int p t =
     (case find (\<lambda>c. codeEquals c t) (children p) of None \<Rightarrow> - 1 | Some c \<Rightarrow> convertToInt c)"

definition field_string :: "packet \<Rightarrow> jsstring \<Rightarrow> jsstring" where
  "field_string p t =
     (case find (\<lambda>c. codeEquals c t) (children p) of None \<Rightarrow> [] | Some c \<Rightarrow> convertToString c)"

definition media_item_spec :: "int \<Rightarrow> jsstring \<Rightarrow> packet \<Rightarrow> media_item" where
  "media_item_spec s srv mlit =
     \<lparr>uri = srv @ str ''/databases/1/items/'' @ num_to_string (field_int mlit (str ''miid''))
              @ str ''.'' @ field_string mlit (str ''asfm'') @ str ''?session-id=''
              @ num_to_string s,
      trackNumber = field_int mlit (str ''astn''),
      title = field_string mlit (str ''minm''),
      album = field_string mlit (str ''asal''),
      artist = field_string mlit (str ''asar''),
      genre = field_string mlit (str ''asgn''),
      id_field = num_to_string s @ str ''-'' @ num_to_string (field_int mlit (str ''miid'')),
      duration = field_int mlit (str ''astm''),
      size_field = field_int mlit (str ''assz''),
      format = field_string mlit (str ''asfm''),
      bitrate = field_int mlit (str ''asbr'') div 65536,
      year = field_int mlit (str ''asyr'') div 65536\<rparr>"

section \<open>Properties of the decoder\<close>

subsection \<open>Bytes and 32-bit operators\<close>

lemma ToInt32_uint: "ToInt32 (Some (uint (c :: jschar))) = uint c"
proof -
  have "uint c < 2 ^ 16" using uint_bounded [of c] by simp
  then have "uint c < 2 ^ 31" by simp
  moreover have "- (2 ^ 31) \<le> uint c" by (simp add: order_trans [of _ 0])
  ultimately show ?thesis by (simp add: ToInt32_def signed_take_bit_int_eq_self)
qed

lemma and_255: "(k :: int) AND 255 = k mod 256"
proof -
  have "k AND mask 8 = take_bit 8 k" by (simp add: take_bit_eq_mask)
  then show ?thesis by (simp add: take_bit_eq_mod mask_eq_exp_minus_1)
qed

lemma js_and_byte: "i < length d \<Longrightarrow> js_and (charCodeAt d i) 0xFF = int (byte_at d i)"
proof -
  assume "i < length d"
  have "ToInt32 (Some 255) = 255" by (simp add: ToInt32_def)
  then show ?thesis using \<open>i < length d\<close>
    by (simp add: js_and_def charCodeAt_def ToInt32_uint byte_at_def and_255 zmod_int)
qed

lemma js_and_NaN: "\<not> i < length d \<Longrightarrow> js_and (charCodeAt d i) 0xFF = 0"
  by (simp add: js_and_def charCodeAt_def ToInt32_def)

lemma ToInt32_id: "- (2 ^ 31) \<le> n \<Longrightarrow> n < 2 ^ 31 \<Longrightarrow> ToInt32 (Some n) = n"
  by (simp add: ToInt32_def signed_take_bit_int_eq_self)

lemma shl_small: "0 \<le> b \<Longrightarrow> b < 256 \<Longrightarrow> k < 24 \<Longrightarrow> js_shl b k = b * 2 ^ k"
proof -
  assume b: "0 \<le> b" "b < 256" and k: "k < 24"
  have "b * 2 ^ k \<le> 255 * 2 ^ k" using b by simp
  also have "(255 :: int) * 2 ^ k < 2 ^ 8 * 2 ^ k" by simp
  also have "\<dots> = 2 ^ (8 + k)" by (simp add: power_add)
  also have "\<dots> \<le> (2 :: int) ^ 31" using k by (intro power_increasing) simp_all
  finally have up: "b * 2 ^ k < 2 ^ 31" by simp
  have lo: "- (2 ^ 31) \<le> b * 2 ^ k" using b by (simp add: order_trans [of _ 0])
  have "ToInt32 (Some b) = b" using b by (intro ToInt32_id) simp_all
  then show ?thesis using k up lo
    by (simp add: js_shl_def push_bit_eq_mult signed_take_bit_int_eq_self)
qed

lemma shl24_low: "0 \<le> b \<Longrightarrow> b < 128 \<Longrightarrow> js_shl b 24 = b * 2 ^ 24"
proof -
  assume b: "0 \<le> b" "b < 128"
  have "ToInt32 (Some b) = b" using b by (intro ToInt32_id) simp_all
  then show ?thesis using b
    by (simp add: js_shl_def push_bit_eq_mult signed_take_bit_int_eq_self)
qed

lemma shl24_high: "128 \<le> b \<Longrightarrow> b < 256 \<Longrightarrow> js_shl b 24 = b * 2 ^ 24 - 2 ^ 32"
proof -
  assume b: "128 \<le> b" "b < 256"
  have t: "ToInt32 (Some b) = b" using b by (intro ToInt32_id) simp_all
  have "signed_take_bit 31 (b * 2 ^ 24) = signed_take_bit 31 (b * 2 ^ 24 - 2 ^ 32)"
    by (simp add: signed_take_bit_eq_iff_take_bit_eq take_bit_eq_mod)
  also have "\<dots> = b * 2 ^ 24 - 2 ^ 32" using b
    by (intro signed_take_bit_int_eq_self) simp_all
  finally show ?thesis using t by (simp add: js_shl_def push_bit_eq_mult)
qed


lemma byte_at_less: "byte_at d i < 256"
  by (simp add: byte_at_def)

lemma readUInt32_eq:
  assumes "i + 3 < length d"
  shows "readUInt32 d i =
    (if byte_at d i < 128 then int (be_u32 d i) else int (be_u32 d i) - 2 ^ 32)"
proof -
  have r: "i < length d" "i + 1 < length d" "i + 2 < length d" "i + 3 < length d"
    using assms by simp_all
  have b0: "js_shl (int (byte_at d i)) 24 =
      (if byte_at d i < 128 then int (byte_at d i) * 2 ^ 24 else int (byte_at d i) * 2 ^ 24 - 2 ^ 32)"
    using byte_at_less [of d i] by (simp add: shl24_low shl24_high)
  have b1: "js_shl (int (byte_at d (i + 1))) 16 = int (byte_at d (i + 1)) * 2 ^ 16"
    using byte_at_less [of d "i + 1"] by (simp add: shl_small)
  have b2: "js_shl (int (byte_at d (i + 2))) 8 = int (byte_at d (i + 2)) * 2 ^ 8"
    using byte_at_less [of d "i + 2"] by (simp add: shl_small)
  have a: "js_and (charCodeAt d i) 0xFF = int (byte_at d i)"
    "js_and (charCodeAt d (i + 1)) 0xFF = int (byte_at d (i + 1))"
    "js_and (charCodeAt d (i + 2)) 0xFF = int (byte_at d (i + 2))"
    "js_and (charCodeAt d (i + 3)) 0xFF = int (byte_at d (i + 3))"
    using r by (simp_all only: js_and_byte)
  show ?thesis
    unfolding readUInt32_def a b0 b1 b2 be_u32_def by simp
qed

lemma be_u32_less: "byte_at d i < 128 \<Longrightarrow> be_u32 d i < 2 ^ 31"
  using byte_at_less [of d "i + 1"] byte_at_less [of d "i + 2"] byte_at_less [of d "i + 3"]
  by (simp add: be_u32_def)

lemma substring_take_drop:
  "0 \<le> a \<Longrightarrow> a \<le> b \<Longrightarrow> b \<le> int (length s) \<Longrightarrow>
   substring s a b = take (nat (b - a)) (drop (nat a) s)"
  by (simp add: substring_def Let_def min_def max_def)

lemma js_and_range: "0 \<le> js_and x 0xFF \<and> js_and x 0xFF < 256"
proof -
  have "ToInt32 (Some 255) = 255" by (simp add: ToInt32_def)
  then have "js_and x 0xFF = ToInt32 x mod 256" by (simp add: js_and_def and_255)
  then show ?thesis by simp
qed

lemma js_shl24_range:
  assumes "0 \<le> b" and "b < 256"
  shows "- (2 ^ 31) \<le> js_shl b 24 \<and> js_shl b 24 \<le> 2 ^ 31 - 2 ^ 24"
proof (cases "b < 128")
  case True
  with assms show ?thesis by (simp add: shl24_low)
next
  case False
  with assms show ?thesis by (simp add: shl24_high)
qed

lemma readUInt32_range: "- (2 ^ 31) \<le> readUInt32 d i \<and> readUInt32 d i < 2 ^ 31"
proof -
  let ?b0 = "js_and (charCodeAt d i) 0xFF"
  let ?b1 = "js_and (charCodeAt d (i + 1)) 0xFF"
  let ?b2 = "js_and (charCodeAt d (i + 2)) 0xFF"
  let ?b3 = "js_and (charCodeAt d (i + 3)) 0xFF"
  have r0: "0 \<le> ?b0 \<and> ?b0 < 256" and r1: "0 \<le> ?b1 \<and> ?b1 < 256"
    and r2: "0 \<le> ?b2 \<and> ?b2 < 256" and r3: "0 \<le> ?b3 \<and> ?b3 < 256"
    by (rule js_and_range)+
  have s0: "- (2 ^ 31) \<le> js_shl ?b0 24 \<and> js_shl ?b0 24 \<le> 2 ^ 31 - 2 ^ 24"
    using js_shl24_range [of ?b0] r0 by blast
  have s1: "js_shl ?b1 16 = ?b1 * 2 ^ 16" using r1 by (simp add: shl_small)
  have s2: "js_shl ?b2 8 = ?b2 * 2 ^ 8" using r2 by (simp add: shl_small)
  have "readUInt32 d i = js_shl ?b0 24 + ?b1 * 2 ^ 16 + ?b2 * 2 ^ 8 + ?b3"
    by (simp only: readUInt32_def s1 s2)
  then show ?thesis using s0 r1 r2 r3 by simp
qed

lemma js_shr_16:
  assumes "- (2 ^ 31) \<le> x" and "x < 2 ^ 31"
  shows "js_shr x 16 = x div 65536"
proof -
  have "ToInt32 (Some x) = x" using assms by (rule ToInt32_id)
  then show ?thesis by (simp add: js_shr_def drop_bit_eq_div)
qed

lemma DaapPacket_error: "DaapPacket chunk start = Inl e \<Longrightarrow> e = EndOfPacketException"
  by (auto simp: DaapPacket_def Let_def split: if_splits)

subsection \<open>The constructor\<close>

text \<open>
  C1 (as amended). For every buffer \<open>b\<close> and offset \<open>ofs\<close>: decoding fails with
  \<open>EndOfPacketException\<close>, the only decoding error of the code, when fewer than 8 code
  units remain from \<open>ofs\<close>. When the first byte of the length field is below 128, so
  that the big-endian unsigned length of bytes \<open>ofs + 4 .. ofs + 7\<close> is below \<open>2 ^ 31\<close>,
  decoding fails with \<open>EndOfPacketException\<close> when fewer than length code units follow the
  header, and otherwise yields the chunk whose code is the code units \<open>ofs .. ofs + 3\<close>,
  whose data is exactly the length code units after the header, and whose size is
  8 + length.
\<close>

theorem DaapPacket_decode:
  "(length b < ofs + 8 \<longrightarrow> DaapPacket b ofs = Inl EndOfPacketException) \<and>
   (ofs + 8 \<le> length b \<and> byte_at b (ofs + 4) < 128 \<longrightarrow>
      (length b < ofs + 8 + be_u32 b (ofs + 4) \<longrightarrow> DaapPacket b ofs = Inl EndOfPacketException) \<and>
      (ofs + 8 + be_u32 b (ofs + 4) \<le> length b \<longrightarrow>
         (\<exists>c. DaapPacket b ofs = Inr c \<and> code c = take 4 (drop ofs b) \<and>
              data c = take (be_u32 b (ofs + 4)) (drop (ofs + 8) b) \<and>
              length (data c) = be_u32 b (ofs + 4) \<and>
              packet_size c = 8 + int (be_u32 b (ofs + 4)))))"
proof (intro conjI impI)
  assume "length b < ofs + 8"
  then show "DaapPacket b ofs = Inl EndOfPacketException"
    by (simp add: DaapPacket_def HEADER_LENGTH_def CODE_LENGTH_def SIZE_LENGTH_def)
next
  assume h: "ofs + 8 \<le> length b \<and> byte_at b (ofs + 4) < 128"
    and "length b < ofs + 8 + be_u32 b (ofs + 4)"
  moreover from h have "readUInt32 b (ofs + 4) = int (be_u32 b (ofs + 4))"
    by (simp add: readUInt32_eq)
  ultimately show "DaapPacket b ofs = Inl EndOfPacketException"
    by (simp add: DaapPacket_def HEADER_LENGTH_def CODE_LENGTH_def SIZE_LENGTH_def Let_def)
next
  assume h: "ofs + 8 \<le> length b \<and> byte_at b (ofs + 4) < 128"
    and fit: "ofs + 8 + be_u32 b (ofs + 4) \<le> length b"
  let ?n = "be_u32 b (ofs + 4)"
  from h have rd: "readUInt32 b (ofs + 4) = int ?n"
    by (simp add: readUInt32_eq)
  have c: "substring b (int ofs) (int ofs + 4) = take 4 (drop ofs b)"
    using h by (simp add: substring_take_drop)
  have d: "substring b (int ofs + 8) (int ofs + 8 + int ?n) = take ?n (drop (ofs + 8) b)"
    using fit by (simp add: substring_take_drop nat_add_distrib)
  have "DaapPacket b ofs = Inr \<lparr>code = take 4 (drop ofs b), data = take ?n (drop (ofs + 8) b)\<rparr>"
    using h fit rd c d
    by (simp add: DaapPacket_def HEADER_LENGTH_def CODE_LENGTH_def SIZE_LENGTH_def Let_def)
  moreover have "length (take ?n (drop (ofs + 8) b)) = ?n"
    using fit by simp
  ultimately show "\<exists>c. DaapPacket b ofs = Inr c \<and> code c = take 4 (drop ofs b) \<and>
              data c = take ?n (drop (ofs + 8) b) \<and> length (data c) = ?n \<and>
              packet_size c = 8 + int ?n"
    by (simp add: packet_size_def HEADER_LENGTH_def CODE_LENGTH_def SIZE_LENGTH_def)
qed

theorem DaapPacket_decode_witness:
  "DaapPacket [109, 108, 111, 103, 0] 0 = Inl EndOfPacketException \<and>
   DaapPacket [109, 108, 111, 103, 0, 0, 0, 24] 0 = Inl EndOfPacketException \<and>
   (\<exists>c. DaapPacket [109, 108, 105, 100, 0, 0, 0, 4, 0, 0, 0, 31] 0 = Inr c \<and>
        code c = [109, 108, 105, 100] \<and> data c = [0, 0, 0, 31] \<and> length (data c) = 4 \<and>
        packet_size c = 12)"
  using DaapPacket_decode [of "[109, 108, 111, 103, 0]" 0]
    DaapPacket_decode [of "[109, 108, 111, 103, 0, 0, 0, 24]" 0]
    DaapPacket_decode [of "[109, 108, 105, 100, 0, 0, 0, 4, 0, 0, 0, 31]" 0]
  by (simp add: byte_at_def be_u32_def)

text \<open>
  C1 as stated fails: the code has one decoding error for both failures, and a length
  field whose first byte is 128 or more is read as a negative number, so that the chunk
  \<open>mlog\<close> with length bytes \<open>80 00 00 00\<close> and no data after the header is decoded, with
  the 8 code units of the header as its data.
\<close>

theorem DaapPacket_decode_counterexample:
  "DaapPacket [109, 108, 111, 103, 0] 0 = DaapPacket [109, 108, 111, 103, 0, 0, 0, 24] 0 \<and>
   be_u32 [109, 108, 111, 103, 0xF780, 0, 0, 0] 4 = 2147483648 \<and>
   length [109 :: jschar, 108, 111, 103, 0xF780, 0, 0, 0] - 8 = 0 \<and>
   DaapPacket [109, 108, 111, 103, 0xF780, 0, 0, 0] 0 =
     Inr \<lparr>code = [109, 108, 111, 103], data = [109, 108, 111, 103, 0xF780, 0, 0, 0]\<rparr>"
  by (simp add: DaapPacket_def HEADER_LENGTH_def CODE_LENGTH_def SIZE_LENGTH_def
      substring_def readUInt32_def charCodeAt_def js_and_def js_shl_def ToInt32_def
      be_u32_def byte_at_def)

subsection \<open>Integers\<close>

text \<open>
  C2: \<open>convertToInt\<close> should return the big-endian unsigned 32-bit value of the first four
  bytes of the data, never a negative number. The code returns a negative number when the
  first byte is 128 or more: the chunk \<open>mlid\<close> with the data bytes \<open>80 00 00 00\<close>, whose
  unsigned value is 2147483648, is converted to -2147483648.
\<close>

theorem convertToInt_negative:
  "DaapPacket [109, 108, 105, 100, 0, 0, 0, 4, 0xF780, 0, 0, 0] 0 =
     Inr \<lparr>code = [109, 108, 105, 100], data = [0xF780, 0, 0, 0]\<rparr> \<and>
   be_u32 [0xF780, 0, 0, 0] 0 = 2147483648 \<and>
   convertToInt \<lparr>code = [109, 108, 105, 100], data = [0xF780, 0, 0, 0]\<rparr> = - 2147483648"
  by (simp add: DaapPacket_def HEADER_LENGTH_def CODE_LENGTH_def SIZE_LENGTH_def
      substring_def readUInt32_def charCodeAt_def js_and_def js_shl_def ToInt32_def
      be_u32_def byte_at_def convertToInt_def)

subsection \<open>Iteration over the children\<close>

lemma readNextChunk_error: "readNextChunk p offset = Inl e \<Longrightarrow> e = EndOfPacketException"
  by (auto simp: readNextChunk_def dest: DaapPacket_error split: sum.splits)

lemma seekFirst_loop_find:
  "seekFirst_loop p t offset = Inr (find (\<lambda>c. codeEquals c t) (children_from p offset))"
proof (induction p t offset rule: seekFirst_loop.induct)
  case (1 p refCode offset)
  show ?case
  proof (cases "readNextChunk p offset")
    case (Inl e)
    then have "e = EndOfPacketException" by (rule readNextChunk_error)
    with Inl show ?thesis
      by (simp add: seekFirst_loop.simps [of p refCode offset]
          children_from.simps [of p offset])
  next
    case (Inr r)
    then obtain result offset' where r: "readNextChunk p offset = Inr (result, offset')"
      by (cases r) simp
    show ?thesis
    proof (cases "codeEquals result refCode")
      case True
      with r show ?thesis
        by (simp add: seekFirst_loop.simps [of p refCode offset]
            children_from.simps [of p offset])
    next
      case False
      from "1.IH" [OF r refl False] r False show ?thesis
        by (simp add: seekFirst_loop.simps [of p refCode offset]
            children_from.simps [of p offset])
    qed
  qed
qed

lemma seek_loop_filter:
  "seek_loop p t offset acc = Inr (acc @ filter (\<lambda>c. codeEquals c t) (children_from p offset))"
proof (induction p t offset acc rule: seek_loop.induct)
  case (1 p refCode offset result)
  show ?case
  proof (cases "readNextChunk p offset")
    case (Inl e)
    then have "e = EndOfPacketException" by (rule readNextChunk_error)
    with Inl show ?thesis
      by (simp add: seek_loop.simps [of p refCode offset result]
          children_from.simps [of p offset])
  next
    case (Inr r)
    then obtain nxt offset' where r: "readNextChunk p offset = Inr (nxt, offset')"
      by (cases r) simp
    from "1.IH" [OF r refl] r show ?thesis
      by (simp add: seek_loop.simps [of p refCode offset result]
          children_from.simps [of p offset])
  qed
qed

lemma seekFirst_find: "seekFirst p t = Inr (find (\<lambda>c. codeEquals c t) (children p))"
  by (simp add: seekFirst_def children_def seekFirst_loop_find)

lemma seek_filter: "seek p t = Inr (filter (\<lambda>c. codeEquals c t) (children p))"
  by (simp add: seek_def children_def seek_loop_filter)

text \<open>
  C3 (as amended). During the iteration over the children of a chunk, every failure of
  \<open>readNextChunk\<close> to decode a chunk at the cursor, whether the data is exhausted or a
  child in the middle of the data is malformed, ends the iteration as its normal end:
  \<open>seekFirst\<close> returns \<^verbatim>\<open>null\<close>, \<open>seek\<close> returns the matching children collected so far,
  and neither of them ever raises an error.
\<close>

theorem seek_decode_failure_ends_iteration:
  "(\<exists>r. seekFirst p t = Inr r) \<and> (\<exists>xs. seek p t = Inr xs) \<and>
   (readNextChunk p offset = Inl e \<longrightarrow>
      seekFirst_loop p t offset = Inr None \<and> seek_loop p t offset acc = Inr acc)"
proof (intro conjI impI)
  show "\<exists>r. seekFirst p t = Inr r" by (simp add: seekFirst_find)
  show "\<exists>xs. seek p t = Inr xs" by (simp add: seek_filter)
next
  assume f: "readNextChunk p offset = Inl e"
  then have "children_from p offset = []"
    by (simp add: children_from.simps [of p offset])
  then show "seekFirst_loop p t offset = Inr None" "seek_loop p t offset acc = Inr acc"
    by (simp_all add: seekFirst_loop_find seek_loop_filter)
qed

theorem seek_decode_failure_ends_iteration_witness:
  "readNextChunk \<lparr>code = [109, 108, 111, 103],
      data = [109, 115, 116, 116, 0, 0, 0, 4, 0, 0, 0, 65480,
              109, 108, 105, 100, 0, 0, 0, 4, 0, 0]\<rparr> 12 = Inl EndOfPacketException \<and>
   seekFirst_loop \<lparr>code = [109, 108, 111, 103],
      data = [109, 115, 116, 116, 0, 0, 0, 4, 0, 0, 0, 65480,
              109, 108, 105, 100, 0, 0, 0, 4, 0, 0]\<rparr> [109, 108, 105, 100] 12 = Inr None \<and>
   seek_loop \<lparr>code = [109, 108, 111, 103],
      data = [109, 115, 116, 116, 0, 0, 0, 4, 0, 0, 0, 65480,
              109, 108, 105, 100, 0, 0, 0, 4, 0, 0]\<rparr> [109, 108, 105, 100] 12 [] = Inr []"
proof -
  let ?p = "\<lparr>code = [109, 108, 111, 103],
      data = [109, 115, 116, 116, 0, 0, 0, 4, 0, 0, 0, 65480,
              109, 108, 105, 100, 0, 0, 0, 4, 0, 0]\<rparr>"
  have f: "readNextChunk ?p 12 = Inl EndOfPacketException"
    by (simp add: readNextChunk_def DaapPacket_def HEADER_LENGTH_def CODE_LENGTH_def
        SIZE_LENGTH_def substring_def readUInt32_def charCodeAt_def js_and_def js_shl_def
        ToInt32_def)
  show ?thesis
    using f seek_decode_failure_ends_iteration
      [of ?p "[109, 108, 105, 100]" 12 EndOfPacketException "[]"]
    by simp
qed

text \<open>
  C3 as stated fails: in the data of this chunk the child \<open>mstt\<close> is followed by a child
  \<open>mlid\<close> that announces 4 bytes and holds 2. The failure to decode it at cursor 12, with
  10 code units left, is not reported: \<open>seekFirst\<close> for \<open>mlid\<close> returns \<^verbatim>\<open>null\<close> and
  \<open>seek\<close> returns the list of the children before it.
\<close>

theorem seek_swallows_malformed_child_counterexample:
  "readNextChunk \<lparr>code = [109, 108, 111, 103],
      data = [109, 115, 116, 116, 0, 0, 0, 4, 0, 0, 0, 65480,
              109, 108, 105, 100, 0, 0, 0, 4, 0, 0]\<rparr> 12 = Inl EndOfPacketException \<and>
   seekFirst \<lparr>code = [109, 108, 111, 103],
      data = [109, 115, 116, 116, 0, 0, 0, 4, 0, 0, 0, 65480,
              109, 108, 105, 100, 0, 0, 0, 4, 0, 0]\<rparr> [109, 108, 105, 100] = Inr None \<and>
   seek \<lparr>code = [109, 108, 111, 103],
      data = [109, 115, 116, 116, 0, 0, 0, 4, 0, 0, 0, 65480,
              109, 108, 105, 100, 0, 0, 0, 4, 0, 0]\<rparr> [109, 115, 116, 116] =
     Inr [\<lparr>code = [109, 115, 116, 116], data = [0, 0, 0, 65480]\<rparr>]"
  by (simp add: seekFirst_def seek_def seekFirst_loop.simps seek_loop.simps codeEquals_def
      packet_size_def readNextChunk_def DaapPacket_def HEADER_LENGTH_def CODE_LENGTH_def
      SIZE_LENGTH_def substring_def readUInt32_def charCodeAt_def js_and_def js_shl_def
      ToInt32_def)

subsection \<open>Field extraction\<close>

text \<open>
  C7. For every chunk \<open>p\<close> and tag \<open>t\<close>: if no child of \<open>p\<close> carries the tag, then
  \<open>seekFirst\<close> returns \<^verbatim>\<open>null\<close> without raising an error, \<open>extractInt\<close> returns -1 and
  \<open>extractString\<close> returns the empty string; if some child carries the tag, then
  \<open>extractInt\<close> and \<open>extractString\<close> return \<open>convertToInt\<close> and \<open>convertToString\<close> of the
  first such child.
\<close>

theorem extract_absent_or_first:
  "(\<not> (\<exists>c \<in> set (children p). codeEquals c t) \<longrightarrow>
      seekFirst p t = Inr None \<and> extractInt p t = Inr (- 1) \<and> extractString p t = Inr []) \<and>
   ((\<exists>c \<in> set (children p). codeEquals c t) \<longrightarrow>
      (\<exists>c. find (\<lambda>c. codeEquals c t) (children p) = Some c \<and>
           extractInt p t = Inr (convertToInt c) \<and>
           extractString p t = Inr (convertToString c)))"
proof -
  have absent: "seekFirst p t = Inr None \<and> extractInt p t = Inr (- 1) \<and> extractString p t = Inr []"
    if "\<not> (\<exists>c \<in> set (children p). codeEquals c t)"
  proof -
    from that have "find (\<lambda>c. codeEquals c t) (children p) = None"
      by (simp add: find_None_iff)
    then show ?thesis
      by (simp add: seekFirst_find extractInt_def extractString_def)
  qed
  have present: "\<exists>c. find (\<lambda>c. codeEquals c t) (children p) = Some c \<and>
           extractInt p t = Inr (convertToInt c) \<and>
           extractString p t = Inr (convertToString c)"
    if "\<exists>c \<in> set (children p). codeEquals c t"
  proof -
    from that have "find (\<lambda>c. codeEquals c t) (children p) \<noteq> None"
      by (auto simp: find_None_iff)
    then obtain c where "find (\<lambda>c. codeEquals c t) (children p) = Some c"
      by blast
    then show ?thesis
      by (simp add: seekFirst_find extractInt_def extractString_def)
  qed
  from absent present show ?thesis by blast
qed

lemma children_mlog:
  "children \<lparr>code = [109, 108, 111, 103],
      data = [109, 115, 116, 116, 0, 0, 0, 4, 0, 0, 0, 65480,
              109, 108, 105, 100, 0, 0, 0, 4, 0, 0, 0, 31]\<rparr> =
   [\<lparr>code = [109, 115, 116, 116], data = [0, 0, 0, 65480]\<rparr>,
    \<lparr>code = [109, 108, 105, 100], data = [0, 0, 0, 31]\<rparr>]"
  by (simp add: children_def children_from.simps packet_size_def readNextChunk_def
      DaapPacket_def HEADER_LENGTH_def CODE_LENGTH_def SIZE_LENGTH_def substring_def
      readUInt32_def charCodeAt_def js_and_def js_shl_def ToInt32_def)

theorem extract_absent_or_first_witness:
  "seekFirst \<lparr>code = [109, 108, 111, 103],
      data = [109, 115, 116, 116, 0, 0, 0, 4, 0, 0, 0, 65480,
              109, 108, 105, 100, 0, 0, 0, 4, 0, 0, 0, 31]\<rparr> [111, 116, 104, 114] = Inr None \<and>
   extractInt \<lparr>code = [109, 108, 111, 103],
      data = [109, 115, 116, 116, 0, 0, 0, 4, 0, 0, 0, 65480,
              109, 108, 105, 100, 0, 0, 0, 4, 0, 0, 0, 31]\<rparr> [111, 116, 104, 114] = Inr (- 1) \<and>
   extractString \<lparr>code = [109, 108, 111, 103],
      data = [109, 115, 116, 116, 0, 0, 0, 4, 0, 0, 0, 65480,
              109, 108, 105, 100, 0, 0, 0, 4, 0, 0, 0, 31]\<rparr> [111, 116, 104, 114] = Inr [] \<and>
   extractInt \<lparr>code = [109, 108, 111, 103],
      data = [109, 115, 116, 116, 0, 0, 0, 4, 0, 0, 0, 65480,
              109, 108, 105, 100, 0, 0, 0, 4, 0, 0, 0, 31]\<rparr> [109, 108, 105, 100] = Inr 31 \<and>
   extractString \<lparr>code = [109, 108, 111, 103],
      data = [109, 115, 116, 116, 0, 0, 0, 4, 0, 0, 0, 65480,
              109, 108, 105, 100, 0, 0, 0, 4, 0, 0, 0, 31]\<rparr> [109, 108, 105, 100] =
     Inr [0, 0, 0, 31]"
proof -
  let ?p = "\<lparr>code = [109, 108, 111, 103],
      data = [109, 115, 116, 116, 0, 0, 0, 4, 0, 0, 0, 65480,
              109, 108, 105, 100, 0, 0, 0, 4, 0, 0, 0, 31]\<rparr>"
  have i: "convertToInt \<lparr>code = [109, 108, 105, 100], data = [0, 0, 0, 31]\<rparr> = 31"
    by (simp add: convertToInt_def readUInt32_def charCodeAt_def js_and_def js_shl_def
        ToInt32_def)
  show ?thesis
    using extract_absent_or_first [of ?p "[111, 116, 104, 114]"]
      extract_absent_or_first [of ?p "[109, 108, 105, 100]"]
    by (simp add: children_mlog codeEquals_def i convertToString_def)
qed

section \<open>Properties of the client\<close>

subsection \<open>The event loop\<close>

lemma run_idle: "inflight w = [] \<Longrightarrow> run replies w = w"
  by (cases replies) simp_all

lemma login_sent:
  "overrideMimeType w \<Longrightarrow> inflight w = [] \<Longrightarrow>
   login w = (None, w\<lparr>inflight := [LoginRequestHandler],
     trace := trace w @ [Sent (request_url w LoginRequestHandler) (authorization w)]\<rparr>)"
  by (simp add: login_def execute_def)

subsection \<open>Login\<close>

text \<open>
  C5. Whenever the transport reports a status other than 200 for the login request, the
  login sequence ends there: the caller's callback is called with that status, the session
  id and the revision id are unchanged, no request waits for a response, and the only
  request sent is the login request, so the update request is never sent.
\<close>

theorem login_failure:
  assumes "overrideMimeType w" and "inflight w = []" and "status \<noteq> 200"
  shows "login_run ((status, text) # replies) w =
    (None, w\<lparr>trace := trace w @
       [Sent (request_url w LoginRequestHandler) (authorization w), LoginCallback status]\<rparr>)"
proof -
  let ?w1 = "w\<lparr>inflight := [LoginRequestHandler],
     trace := trace w @ [Sent (request_url w LoginRequestHandler) (authorization w)]\<rparr>"
  let ?w2 = "w\<lparr>trace := trace w @
       [Sent (request_url w LoginRequestHandler) (authorization w), LoginCallback status]\<rparr>"
  have l: "login w = (None, ?w1)"
    using assms by (simp add: login_sent)
  have t: "turn ?w1 (status, text) = ?w2"
    using assms by (cases w) (simp add: turn_def onreadystatechange_def LoginListener_fail_def)
  have "inflight ?w2 = []" using assms by simp
  then have "run replies ?w2 = ?w2" by (rule run_idle)
  with l t show ?thesis by (simp add: login_run_def)
qed

theorem login_failure_witness:
  "login_run [(401, [])] (DaapClient (str ''10.0.1.6'') (Some 3690) True) =
    (None, (DaapClient (str ''10.0.1.6'') (Some 3690) True)
       \<lparr>trace := [Sent (str ''http://10.0.1.6:3690/login'') None, LoginCallback 401]\<rparr>)"
  using login_failure [of "DaapClient (str ''10.0.1.6'') (Some 3690) True" 401 "[]" "[]"]
  by (simp add: DaapClient_def request_url_def authorization_def optional_to_string_def
      num_to_string_def digits.simps digit_char_def str_def)

text \<open>
  C9. If the response to the login request (to the update request) has status 200 and
  decodes as a chunk with no child \<open>mlid\<close> (\<open>musr\<close>), then the handler of the response
  ends with an uncaught \<open>TypeError\<close> and leaves the client as it was: the session id and
  the revision id are not set, no request is sent and the caller's callback is not called.
\<close>

theorem missing_id_uncaught:
  assumes "DaapPacket text 0 = Inr packet"
  shows "(seekFirst packet (str ''mlid'') = Inr None \<longrightarrow>
      onreadystatechange LoginRequestHandler 200 text w = (Some TypeError, w) \<and>
      turn (w\<lparr>inflight := LoginRequestHandler # rest\<rparr>) (200, text) =
        w\<lparr>inflight := rest, trace := trace w @ [Uncaught TypeError]\<rparr>) \<and>
    (seekFirst packet (str ''musr'') = Inr None \<longrightarrow>
      onreadystatechange (UpdateRequestHandler aSid) 200 text w = (Some TypeError, w) \<and>
      turn (w\<lparr>inflight := UpdateRequestHandler aSid # rest\<rparr>) (200, text) =
        w\<lparr>inflight := rest, trace := trace w @ [Uncaught TypeError]\<rparr>)"
  using assms by (simp add: turn_def onreadystatechange_def)

lemma DaapPacket_mstt_only:
  "DaapPacket [109, 108, 111, 103, 0, 0, 0, 12,
               109, 115, 116, 116, 0, 0, 0, 4, 0, 0, 0, 65480] 0 =
   Inr \<lparr>code = [109, 108, 111, 103], data = [109, 115, 116, 116, 0, 0, 0, 4, 0, 0, 0, 65480]\<rparr>"
  by (simp add: DaapPacket_def HEADER_LENGTH_def CODE_LENGTH_def SIZE_LENGTH_def
      substring_def readUInt32_def charCodeAt_def js_and_def js_shl_def ToInt32_def)

lemma children_mstt_only:
  "children \<lparr>code = [109, 108, 111, 103],
      data = [109, 115, 116, 116, 0, 0, 0, 4, 0, 0, 0, 65480]\<rparr> =
   [\<lparr>code = [109, 115, 116, 116], data = [0, 0, 0, 65480]\<rparr>]"
  by (simp add: children_def children_from.simps packet_size_def readNextChunk_def
      DaapPacket_def HEADER_LENGTH_def CODE_LENGTH_def SIZE_LENGTH_def substring_def
      readUInt32_def charCodeAt_def js_and_def js_shl_def ToInt32_def)

theorem missing_id_uncaught_witness:
  "onreadystatechange LoginRequestHandler 200
     [109, 108, 111, 103, 0, 0, 0, 12, 109, 115, 116, 116, 0, 0, 0, 4, 0, 0, 0, 65480]
     (DaapClient (str ''10.0.1.6'') (Some 3690) True) =
     (Some TypeError, DaapClient (str ''10.0.1.6'') (Some 3690) True) \<and>
   turn ((DaapClient (str ''10.0.1.6'') (Some 3690) True)\<lparr>inflight := [LoginRequestHandler]\<rparr>)
     (200, [109, 108, 111, 103, 0, 0, 0, 12, 109, 115, 116, 116, 0, 0, 0, 4, 0, 0, 0, 65480]) =
     (DaapClient (str ''10.0.1.6'') (Some 3690) True)
       \<lparr>inflight := [], trace := [Uncaught TypeError]\<rparr> \<and>
   onreadystatechange (UpdateRequestHandler (Some 31)) 200
     [109, 108, 111, 103, 0, 0, 0, 12, 109, 115, 116, 116, 0, 0, 0, 4, 0, 0, 0, 65480]
     (DaapClient (str ''10.0.1.6'') (Some 3690) True) =
     (Some TypeError, DaapClient (str ''10.0.1.6'') (Some 3690) True) \<and>
   turn ((DaapClient (str ''10.0.1.6'') (Some 3690) True)
       \<lparr>inflight := [UpdateRequestHandler (Some 31)]\<rparr>)
     (200, [109, 108, 111, 103, 0, 0, 0, 12, 109, 115, 116, 116, 0, 0, 0, 4, 0, 0, 0, 65480]) =
     (DaapClient (str ''10.0.1.6'') (Some 3690) True)
       \<lparr>inflight := [], trace := [Uncaught TypeError]\<rparr>"
proof -
  let ?p = "\<lparr>code = [109, 108, 111, 103],
      data = [109, 115, 116, 116, 0, 0, 0, 4, 0, 0, 0, 65480]\<rparr>"
  have a: "seekFirst ?p (str ''mlid'') = Inr None" "seekFirst ?p (str ''musr'') = Inr None"
    by (simp_all add: seekFirst_find children_mstt_only codeEquals_def str_def)
  show ?thesis
    using a missing_id_uncaught [OF DaapPacket_mstt_only,
        of "DaapClient (str ''10.0.1.6'') (Some 3690) True" "[]" "Some 31"]
    by (simp add: DaapClient_def)
qed

text \<open>
  C4. When the transport answers the login request with status 200 and a chunk whose first
  child \<open>mlid\<close> has the value \<open>s\<close>, and then the update request with status 200 and a
  chunk whose first child \<open>musr\<close> has the value \<open>r\<close>, \<open>login\<close> calls the caller's
  callback exactly once, with status 200, and afterwards the session id is \<open>s\<close> and the
  revision id is \<open>r\<close> (31 and 5 in the witness).
\<close>

theorem login_success:
  assumes "overrideMimeType w" and "inflight w = []"
    and "DaapPacket text1 0 = Inr packet1"
    and "seekFirst packet1 (str ''mlid'') = Inr (Some chunk1)"
    and "convertToInt chunk1 = s"
    and "DaapPacket text2 0 = Inr packet2"
    and "seekFirst packet2 (str ''musr'') = Inr (Some chunk2)"
    and "convertToInt chunk2 = r"
  shows "login_run ((200, text1) # (200, text2) # replies) w =
    (None, w\<lparr>sid := Some s, rid := Some r,
       trace := trace w @
         [Sent (request_url w LoginRequestHandler) (authorization w),
          Sent (request_url w (UpdateRequestHandler (Some s))) (authorization w),
          LoginCallback 200]\<rparr>)"
proof -
  let ?e1 = "Sent (request_url w LoginRequestHandler) (authorization w)"
  let ?e2 = "Sent (request_url w (UpdateRequestHandler (Some s))) (authorization w)"
  let ?w1 = "w\<lparr>inflight := [LoginRequestHandler], trace := trace w @ [?e1]\<rparr>"
  let ?w2 = "w\<lparr>sid := Some s, inflight := [UpdateRequestHandler (Some s)],
    trace := trace w @ [?e1, ?e2]\<rparr>"
  let ?w3 = "w\<lparr>sid := Some s, rid := Some r, trace := trace w @ [?e1, ?e2, LoginCallback 200]\<rparr>"
  have l: "login w = (None, ?w1)"
    using assms by (simp add: login_sent)
  have t1: "turn ?w1 (200, text1) = ?w2"
    using assms
    by (cases w)
      (simp add: turn_def onreadystatechange_def LoginListener_sidUpdated_def execute_def
        request_url_def authorization_def)
  have t2: "turn ?w2 (200, text2) = ?w3"
    using assms
    by (cases w) (simp add: turn_def onreadystatechange_def LoginListener_ridUpdated_def)
  have "inflight ?w3 = []" using assms by simp
  then have "run replies ?w3 = ?w3" by (rule run_idle)
  with l t1 t2 show ?thesis by (simp add: login_run_def)
qed

lemma DaapPacket_mlog:
  "DaapPacket [109, 108, 111, 103, 0, 0, 0, 24,
               109, 115, 116, 116, 0, 0, 0, 4, 0, 0, 0, 65480,
               109, 108, 105, 100, 0, 0, 0, 4, 0, 0, 0, 31] 0 =
   Inr \<lparr>code = [109, 108, 111, 103],
        data = [109, 115, 116, 116, 0, 0, 0, 4, 0, 0, 0, 65480,
                109, 108, 105, 100, 0, 0, 0, 4, 0, 0, 0, 31]\<rparr>"
  by (simp add: DaapPacket_def HEADER_LENGTH_def CODE_LENGTH_def SIZE_LENGTH_def
      substring_def readUInt32_def charCodeAt_def js_and_def js_shl_def ToInt32_def)

lemma DaapPacket_mupd:
  "DaapPacket [109, 117, 112, 100, 0, 0, 0, 24,
               109, 115, 116, 116, 0, 0, 0, 4, 0, 0, 0, 65480,
               109, 117, 115, 114, 0, 0, 0, 4, 0, 0, 0, 5] 0 =
   Inr \<lparr>code = [109, 117, 112, 100],
        data = [109, 115, 116, 116, 0, 0, 0, 4, 0, 0, 0, 65480,
                109, 117, 115, 114, 0, 0, 0, 4, 0, 0, 0, 5]\<rparr>"
  by (simp add: DaapPacket_def HEADER_LENGTH_def CODE_LENGTH_def SIZE_LENGTH_def
      substring_def readUInt32_def charCodeAt_def js_and_def js_shl_def ToInt32_def)

lemma children_mupd:
  "children \<lparr>code = [109, 117, 112, 100],
      data = [109, 115, 116, 116, 0, 0, 0, 4, 0, 0, 0, 65480,
              109, 117, 115, 114, 0, 0, 0, 4, 0, 0, 0, 5]\<rparr> =
   [\<lparr>code = [109, 115, 116, 116], data = [0, 0, 0, 65480]\<rparr>,
    \<lparr>code = [109, 117, 115, 114], data = [0, 0, 0, 5]\<rparr>]"
  by (simp add: children_def children_from.simps packet_size_def readNextChunk_def
      DaapPacket_def HEADER_LENGTH_def CODE_LENGTH_def SIZE_LENGTH_def substring_def
      readUInt32_def charCodeAt_def js_and_def js_shl_def ToInt32_def)

theorem login_success_witness:
  "login_run
     [(200, [109, 108, 111, 103, 0, 0, 0, 24,
             109, 115, 116, 116, 0, 0, 0, 4, 0, 0, 0, 65480,
             109, 108, 105, 100, 0, 0, 0, 4, 0, 0, 0, 31]),
      (200, [109, 117, 112, 100, 0, 0, 0, 24,
             109, 115, 116, 116, 0, 0, 0, 4, 0, 0, 0, 65480,
             109, 117, 115, 114, 0, 0, 0, 4, 0, 0, 0, 5])]
     (DaapClient (str ''10.0.1.6'') (Some 3690) True) =
   (None, (DaapClient (str ''10.0.1.6'') (Some 3690) True)
      \<lparr>sid := Some 31, rid := Some 5,
        trace := [Sent (str ''http://10.0.1.6:3690/login'') None,
                  Sent (str ''http://10.0.1.6:3690/update?session-id=31'') None,
                  LoginCallback 200]\<rparr>)"
proof -
  let ?p1 = "\<lparr>code = [109, 108, 111, 103],
        data = [109, 115, 116, 116, 0, 0, 0, 4, 0, 0, 0, 65480,
                109, 108, 105, 100, 0, 0, 0, 4, 0, 0, 0, 31]\<rparr>"
  let ?p2 = "\<lparr>code = [109, 117, 112, 100],
        data = [109, 115, 116, 116, 0, 0, 0, 4, 0, 0, 0, 65480,
                109, 117, 115, 114, 0, 0, 0, 4, 0, 0, 0, 5]\<rparr>"
  let ?c1 = "\<lparr>code = [109, 108, 105, 100], data = [0, 0, 0, 31]\<rparr>"
  let ?c2 = "\<lparr>code = [109, 117, 115, 114], data = [0, 0, 0, 5]\<rparr>"
  let ?w = "DaapClient (str ''10.0.1.6'') (Some 3690) True"
  have w: "overrideMimeType ?w" "inflight ?w = []"
    by (simp_all add: DaapClient_def)
  have s1: "seekFirst ?p1 (str ''mlid'') = Inr (Some ?c1)"
    by (simp add: seekFirst_find children_mlog codeEquals_def str_def)
  have s2: "seekFirst ?p2 (str ''musr'') = Inr (Some ?c2)"
    by (simp add: seekFirst_find children_mupd codeEquals_def str_def)
  have i1: "convertToInt ?c1 = 31"
    by (simp add: convertToInt_def readUInt32_def charCodeAt_def js_and_def js_shl_def
        ToInt32_def)
  have i2: "convertToInt ?c2 = 5"
    by (simp add: convertToInt_def readUInt32_def charCodeAt_def js_and_def js_shl_def
        ToInt32_def)
  show ?thesis
    using login_success [OF w DaapPacket_mlog s1 i1 DaapPacket_mupd s2 i2, of "[]"]
    by (simp add: DaapClient_def request_url_def authorization_def optional_to_string_def
        nullable_to_string_def num_to_string_def digits.simps digit_char_def str_def)
qed

subsection \<open>Fetching the streams\<close>

text \<open>
  C6. In every state of the client in which the session id or the revision id is
  \<^verbatim>\<open>null\<close>, \<open>fetchStreams\<close> raises the error "Login not completed." and does nothing else:
  the client is unchanged, so no request is sent and the caller's callback is not called,
  whatever the transport would reply.
\<close>

theorem fetchStreams_not_logged_in:
  assumes "sid w = None \<or> rid w = None"
  shows "fetchStreams w = (Some (Error ''Login not completed.''), w) \<and>
    fetchStreams_run replies w = (Some (Error ''Login not completed.''), w)"
  using assms by (auto simp: fetchStreams_run_def fetchStreams_def checkLogin_def)

theorem fetchStreams_not_logged_in_witness:
  "fetchStreams (DaapClient (str ''10.0.1.6'') (Some 3690) True) =
     (Some (Error ''Login not completed.''), DaapClient (str ''10.0.1.6'') (Some 3690) True) \<and>
   fetchStreams_run [(200, [])] (DaapClient (str ''10.0.1.6'') (Some 3690) True) =
     (Some (Error ''Login not completed.''), DaapClient (str ''10.0.1.6'') (Some 3690) True)"
  using fetchStreams_not_logged_in [of "DaapClient (str ''10.0.1.6'') (Some 3690) True" "[(200, [])]"]
  by (simp add: DaapClient_def)

lemma extractInt_field: "extractInt p t = Inr (field_int p t)"
  by (simp add: extractInt_def field_int_def seekFirst_find split: option.splits)

lemma extractString_field: "extractString p t = Inr (field_string p t)"
  by (simp add: extractString_def field_string_def seekFirst_find split: option.splits)

lemma field_int_range: "- (2 ^ 31) \<le> field_int p t \<and> field_int p t < 2 ^ 31"
  using readUInt32_range
  by (simp add: field_int_def convertToInt_def split: option.splits)

lemma js_shr_field_int: "js_shr (field_int p t) 16 = field_int p t div 65536"
  using field_int_range [of p t] by (simp add: js_shr_16)

lemma createDaapStream_spec:
  "createDaapStream (Some s) srv mlit = Inr (media_item_spec s srv mlit)"
  by (simp add: createDaapStream_def media_item_spec_def bindE_def extractInt_field
      extractString_field nullable_to_string_def js_shr_field_int)

lemma audioStreams_loop_spec:
  "audioStreams_loop (Some s) srv mlits = Inr (map (media_item_spec s srv) mlits)"
  by (induction mlits) (simp_all add: bindE_def createDaapStream_spec)

lemma database_response_ok:
  assumes "DaapPacket text 0 = Inr packet"
    and "seekFirst packet (str ''mlcl'') = Inr (Some mlcl)"
  shows "onreadystatechange (DatabaseRequestHandler (Some s) aRid srv) 200 text w =
    (None, w\<lparr>trace := trace w @
       [StreamsCallback 200
          (Some (map (media_item_spec s srv)
             (filter (\<lambda>c. codeEquals c (str ''mlit'')) (children mlcl))))]\<rparr>)"
  using assms
  by (simp add: onreadystatechange_def seek_filter audioStreams_loop_spec)

lemma database_response_undecodable:
  assumes "DaapPacket text 0 = Inl e"
  shows "onreadystatechange (DatabaseRequestHandler aSid aRid srv) 200 text w =
    (None, w\<lparr>trace := trace w @ [StreamsCallback 400 None]\<rparr>)"
proof -
  from assms have "e = EndOfPacketException" by (rule DaapPacket_error)
  with assms show ?thesis by (simp add: onreadystatechange_def)
qed

text \<open>
  C8 (as amended). For every response with status 200 to the catalog request whose text
  decodes as a chunk with a child \<open>mlcl\<close>, the handler takes the first child \<open>mlcl\<close>,
  collects all its children \<open>mlit\<close> in the order of the data, maps each of them to
  exactly one media item, the one of the specification (\<open>media_item_spec\<close>: id
  \<open>sid-itemId\<close>, uri \<open>server/databases/1/items/itemId.format?session-id=sid\<close>, the
  extracted strings and integers, bit rate and year divided by 65536 and rounded down),
  and calls the callback with status 200 and this list. For every response with status 200
  whose text does not decode as a chunk, the callback is called with status 400 and
  \<^verbatim>\<open>undefined\<close>.
\<close>

theorem catalog_response:
  "(DaapPacket text 0 = Inr packet \<and> seekFirst packet (str ''mlcl'') = Inr (Some mlcl) \<longrightarrow>
      onreadystatechange (DatabaseRequestHandler (Some s) aRid srv) 200 text w =
        (None, w\<lparr>trace := trace w @
           [StreamsCallback 200
              (Some (map (media_item_spec s srv)
                 (filter (\<lambda>c. codeEquals c (str ''mlit'')) (children mlcl))))]\<rparr>)) \<and>
   (DaapPacket text 0 = Inl e \<longrightarrow>
      onreadystatechange (DatabaseRequestHandler (Some s) aRid srv) 200 text w =
        (None, w\<lparr>trace := trace w @ [StreamsCallback 400 None]\<rparr>))"
  using database_response_ok [of "text" packet mlcl s aRid srv w]
    database_response_undecodable [of "text" e "Some s" aRid srv w]
  by blast

lemma DaapPacket_adbs:
  "DaapPacket [97, 100, 98, 115, 0, 0, 0, 51,
               109, 108, 99, 108, 0, 0, 0, 43,
               109, 108, 105, 116, 0, 0, 0, 35,
               109, 105, 105, 100, 0, 0, 0, 4, 0, 0, 0, 100,
               97, 115, 102, 109, 0, 0, 0, 3, 109, 112, 51,
               109, 105, 110, 109, 0, 0, 0, 4, 83, 111, 110, 103] 0 =
   Inr \<lparr>code = [97, 100, 98, 115],
        data = [109, 108, 99, 108, 0, 0, 0, 43,
                109, 108, 105, 116, 0, 0, 0, 35,
                109, 105, 105, 100, 0, 0, 0, 4, 0, 0, 0, 100,
                97, 115, 102, 109, 0, 0, 0, 3, 109, 112, 51,
                109, 105, 110, 109, 0, 0, 0, 4, 83, 111, 110, 103]\<rparr>"
  by (simp add: DaapPacket_def HEADER_LENGTH_def CODE_LENGTH_def SIZE_LENGTH_def
      substring_def readUInt32_def charCodeAt_def js_and_def js_shl_def ToInt32_def)

lemma children_adbs:
  "children \<lparr>code = [97, 100, 98, 115],
        data = [109, 108, 99, 108, 0, 0, 0, 43,
                109, 108, 105, 116, 0, 0, 0, 35,
                109, 105, 105, 100, 0, 0, 0, 4, 0, 0, 0, 100,
                97, 115, 102, 109, 0, 0, 0, 3, 109, 112, 51,
                109, 105, 110, 109, 0, 0, 0, 4, 83, 111, 110, 103]\<rparr> =
   [\<lparr>code = [109, 108, 99, 108],
     data = [109, 108, 105, 116, 0, 0, 0, 35,
             109, 105, 105, 100, 0, 0, 0, 4, 0, 0, 0, 100,
             97, 115, 102, 109, 0, 0, 0, 3, 109, 112, 51,
             109, 105, 110, 109, 0, 0, 0, 4, 83, 111, 110, 103]\<rparr>]"
  by (simp add: children_def children_from.simps packet_size_def readNextChunk_def
      DaapPacket_def HEADER_LENGTH_def CODE_LENGTH_def SIZE_LENGTH_def substring_def
      readUInt32_def charCodeAt_def js_and_def js_shl_def ToInt32_def)

lemma children_mlcl:
  "children \<lparr>code = [109, 108, 99, 108],
     data = [109, 108, 105, 116, 0, 0, 0, 35,
             109, 105, 105, 100, 0, 0, 0, 4, 0, 0, 0, 100,
             97, 115, 102, 109, 0, 0, 0, 3, 109, 112, 51,
             109, 105, 110, 109, 0, 0, 0, 4, 83, 111, 110, 103]\<rparr> =
   [\<lparr>code = [109, 108, 105, 116],
     data = [109, 105, 105, 100, 0, 0, 0, 4, 0, 0, 0, 100,
             97, 115, 102, 109, 0, 0, 0, 3, 109, 112, 51,
             109, 105, 110, 109, 0, 0, 0, 4, 83, 111, 110, 103]\<rparr>]"
  by (simp add: children_def children_from.simps packet_size_def readNextChunk_def
      DaapPacket_def HEADER_LENGTH_def CODE_LENGTH_def SIZE_LENGTH_def substring_def
      readUInt32_def charCodeAt_def js_and_def js_shl_def ToInt32_def)

lemma children_mlit:
  "children \<lparr>code = [109, 108, 105, 116],
     data = [109, 105, 105, 100, 0, 0, 0, 4, 0, 0, 0, 100,
             97, 115, 102, 109, 0, 0, 0, 3, 109, 112, 51,
             109, 105, 110, 109, 0, 0, 0, 4, 83, 111, 110, 103]\<rparr> =
   [\<lparr>code = [109, 105, 105, 100], data = [0, 0, 0, 100]\<rparr>,
    \<lparr>code = [97, 115, 102, 109], data = [109, 112, 51]\<rparr>,
    \<lparr>code = [109, 105, 110, 109], data = [83, 111, 110, 103]\<rparr>]"
  by (simp add: children_def children_from.simps packet_size_def readNextChunk_def
      DaapPacket_def HEADER_LENGTH_def CODE_LENGTH_def SIZE_LENGTH_def substring_def
      readUInt32_def charCodeAt_def js_and_def js_shl_def ToInt32_def)

lemma DaapPacket_adbs_full:
  "DaapPacket
    [97, 100, 98, 115, 0, 0, 0, 71, 109, 108, 99, 108, 0, 0, 0, 63, 109,
     108, 105, 116, 0, 0, 0, 55, 109, 105, 105, 100, 0, 0, 0, 4, 0, 0, 0,
     100, 97, 115, 102, 109, 0, 0, 0, 3, 109, 112, 51, 109, 105, 110, 109,
     0, 0, 0, 4, 83, 111, 110, 103, 97, 115, 98, 114, 0, 0, 0, 2, 0,
     63360, 97, 115, 121, 114, 0, 0, 0, 2, 7, 63452] 0 =
   Inr
    \<lparr>code = [97, 100, 98, 115],
     data = [109, 108, 99, 108, 0, 0, 0, 63, 109, 108, 105, 116, 0, 0, 0, 55, 109,
             105, 105, 100, 0, 0, 0, 4, 0, 0, 0, 100, 97, 115, 102, 109, 0, 0, 0,
             3, 109, 112, 51, 109, 105, 110, 109, 0, 0, 0, 4, 83, 111, 110, 103,
             97, 115, 98, 114, 0, 0, 0, 2, 0, 63360, 97, 115, 121, 114, 0, 0, 0,
             2, 7, 63452]\<rparr>"
  by (simp add: DaapPacket_def HEADER_LENGTH_def CODE_LENGTH_def SIZE_LENGTH_def
      substring_def readUInt32_def charCodeAt_def js_and_def js_shl_def ToInt32_def)

lemma children_adbs_full:
  "children
    \<lparr>code = [97, 100, 98, 115],
     data = [109, 108, 99, 108, 0, 0, 0, 63, 109, 108, 105, 116, 0, 0, 0, 55, 109,
             105, 105, 100, 0, 0, 0, 4, 0, 0, 0, 100, 97, 115, 102, 109, 0, 0, 0,
             3, 109, 112, 51, 109, 105, 110, 109, 0, 0, 0, 4, 83, 111, 110, 103,
             97, 115, 98, 114, 0, 0, 0, 2, 0, 63360, 97, 115, 121, 114, 0, 0, 0,
             2, 7, 63452]\<rparr> =
   [\<lparr>code = [109, 108, 99, 108],
     data = [109, 108, 105, 116, 0, 0, 0, 55, 109, 105, 105, 100, 0, 0, 0, 4, 0,
             0, 0, 100, 97, 115, 102, 109, 0, 0, 0, 3, 109, 112, 51, 109, 105,
             110, 109, 0, 0, 0, 4, 83, 111, 110, 103, 97, 115, 98, 114, 0, 0, 0,
             2, 0, 63360, 97, 115, 121, 114, 0, 0, 0, 2, 7, 63452]\<rparr>]"
  by (simp add: children_def children_from.simps packet_size_def readNextChunk_def
      DaapPacket_def HEADER_LENGTH_def CODE_LENGTH_def SIZE_LENGTH_def
      substring_def readUInt32_def charCodeAt_def js_and_def js_shl_def ToInt32_def)

lemma children_mlcl_full:
  "children
    \<lparr>code = [109, 108, 99, 108],
     data = [109, 108, 105, 116, 0, 0, 0, 55, 109, 105, 105, 100, 0, 0, 0, 4, 0,
             0, 0, 100, 97, 115, 102, 109, 0, 0, 0, 3, 109, 112, 51, 109, 105,
             110, 109, 0, 0, 0, 4, 83, 111, 110, 103, 97, 115, 98, 114, 0, 0, 0,
             2, 0, 63360, 97, 115, 121, 114, 0, 0, 0, 2, 7, 63452]\<rparr> =
   [\<lparr>code = [109, 108, 105, 116],
     data = [109, 105, 105, 100, 0, 0, 0, 4, 0, 0, 0, 100, 97, 115, 102, 109, 0,
             0, 0, 3, 109, 112, 51, 109, 105, 110, 109, 0, 0, 0, 4, 83, 111, 110,
             103, 97, 115, 98, 114, 0, 0, 0, 2, 0, 63360, 97, 115, 121, 114, 0, 0,
             0, 2, 7, 63452]\<rparr>]"
  by (simp add: children_def children_from.simps packet_size_def readNextChunk_def
      DaapPacket_def HEADER_LENGTH_def CODE_LENGTH_def SIZE_LENGTH_def
      substring_def readUInt32_def charCodeAt_def js_and_def js_shl_def ToInt32_def)

lemma children_mlit_full:
  "children
    \<lparr>code = [109, 108, 105, 116],
     data = [109, 105, 105, 100, 0, 0, 0, 4, 0, 0, 0, 100, 97, 115, 102, 109, 0,
             0, 0, 3, 109, 112, 51, 109, 105, 110, 109, 0, 0, 0, 4, 83, 111, 110,
             103, 97, 115, 98, 114, 0, 0, 0, 2, 0, 63360, 97, 115, 121, 114, 0, 0,
             0, 2, 7, 63452]\<rparr> =
   [\<lparr>code = [109, 105, 105, 100], data = [0, 0, 0, 100]\<rparr>,
    \<lparr>code = [97, 115, 102, 109], data = [109, 112, 51]\<rparr>,
    \<lparr>code = [109, 105, 110, 109], data = [83, 111, 110, 103]\<rparr>,
    \<lparr>code = [97, 115, 98, 114], data = [0, 63360]\<rparr>,
    \<lparr>code = [97, 115, 121, 114], data = [7, 63452]\<rparr>]"
  by (simp add: children_def children_from.simps packet_size_def readNextChunk_def
      DaapPacket_def HEADER_LENGTH_def CODE_LENGTH_def SIZE_LENGTH_def
      substring_def readUInt32_def charCodeAt_def js_and_def js_shl_def ToInt32_def)

lemma media_item_spec_song:
  "media_item_spec 31 (str ''http://10.0.1.6:3690'')
    \<lparr>code = [109, 108, 105, 116],
     data = [109, 105, 105, 100, 0, 0, 0, 4, 0, 0, 0, 100, 97, 115, 102, 109, 0,
             0, 0, 3, 109, 112, 51, 109, 105, 110, 109, 0, 0, 0, 4, 83, 111, 110,
             103, 97, 115, 98, 114, 0, 0, 0, 2, 0, 63360, 97, 115, 121, 114, 0, 0,
             0, 2, 7, 63452]\<rparr> =
   \<lparr>uri = str ''http://10.0.1.6:3690/databases/1/items/100.mp3?session-id=31'',
    trackNumber = - 1, title = str ''Song'', album = [], artist = [], genre = [],
    id_field = str ''31-100'', duration = - 1, size_field = - 1, format = str ''mp3'',
    bitrate = 128, year = 2012\<rparr>"
  by (simp add: media_item_spec_def field_int_def field_string_def children_mlit_full
      codeEquals_def convertToInt_def convertToString_def readUInt32_def charCodeAt_def
      js_and_def js_shl_def ToInt32_def num_to_string_def digits.simps digit_char_def
      str_def)

theorem catalog_response_witness:
  "onreadystatechange
     (DatabaseRequestHandler (Some 31) (Some 5) (str ''http://10.0.1.6:3690'')) 200
     [97, 100, 98, 115, 0, 0, 0, 71, 109, 108, 99, 108, 0, 0, 0, 63, 109,
     108, 105, 116, 0, 0, 0, 55, 109, 105, 105, 100, 0, 0, 0, 4, 0, 0, 0,
     100, 97, 115, 102, 109, 0, 0, 0, 3, 109, 112, 51, 109, 105, 110, 109,
     0, 0, 0, 4, 83, 111, 110, 103, 97, 115, 98, 114, 0, 0, 0, 2, 0,
     63360, 97, 115, 121, 114, 0, 0, 0, 2, 7, 63452]
     (DaapClient (str ''10.0.1.6'') (Some 3690) True) =
   (None, (DaapClient (str ''10.0.1.6'') (Some 3690) True)
      \<lparr>trace := [StreamsCallback 200 (Some
         [\<lparr>uri = str ''http://10.0.1.6:3690/databases/1/items/100.mp3?session-id=31'',
    trackNumber = - 1, title = str ''Song'', album = [], artist = [], genre = [],
    id_field = str ''31-100'', duration = - 1, size_field = - 1, format = str ''mp3'',
    bitrate = 128, year = 2012\<rparr>])]\<rparr>) \<and>
   onreadystatechange
     (DatabaseRequestHandler (Some 31) (Some 5) (str ''http://10.0.1.6:3690'')) 200
     [97, 100, 98]
     (DaapClient (str ''10.0.1.6'') (Some 3690) True) =
   (None, (DaapClient (str ''10.0.1.6'') (Some 3690) True)
      \<lparr>trace := [StreamsCallback 400 None]\<rparr>)"
proof -
  let ?adbs = "\<lparr>code = [97, 100, 98, 115],
     data = [109, 108, 99, 108, 0, 0, 0, 63, 109, 108, 105, 116, 0, 0, 0, 55, 109,
             105, 105, 100, 0, 0, 0, 4, 0, 0, 0, 100, 97, 115, 102, 109, 0, 0, 0,
             3, 109, 112, 51, 109, 105, 110, 109, 0, 0, 0, 4, 83, 111, 110, 103,
             97, 115, 98, 114, 0, 0, 0, 2, 0, 63360, 97, 115, 121, 114, 0, 0, 0,
             2, 7, 63452]\<rparr>"
  let ?mlcl = "\<lparr>code = [109, 108, 99, 108],
     data = [109, 108, 105, 116, 0, 0, 0, 55, 109, 105, 105, 100, 0, 0, 0, 4, 0,
             0, 0, 100, 97, 115, 102, 109, 0, 0, 0, 3, 109, 112, 51, 109, 105,
             110, 109, 0, 0, 0, 4, 83, 111, 110, 103, 97, 115, 98, 114, 0, 0, 0,
             2, 0, 63360, 97, 115, 121, 114, 0, 0, 0, 2, 7, 63452]\<rparr>"
  let ?mlit = "\<lparr>code = [109, 108, 105, 116],
     data = [109, 105, 105, 100, 0, 0, 0, 4, 0, 0, 0, 100, 97, 115, 102, 109, 0,
             0, 0, 3, 109, 112, 51, 109, 105, 110, 109, 0, 0, 0, 4, 83, 111, 110,
             103, 97, 115, 98, 114, 0, 0, 0, 2, 0, 63360, 97, 115, 121, 114, 0, 0,
             0, 2, 7, 63452]\<rparr>"
  let ?w = "DaapClient (str ''10.0.1.6'') (Some 3690) True"
  have m: "seekFirst ?adbs (str ''mlcl'') = Inr (Some ?mlcl)"
    by (simp add: seekFirst_find children_adbs_full codeEquals_def str_def)
  have f: "filter (\<lambda>c. codeEquals c (str ''mlit'')) (children ?mlcl) = [?mlit]"
    by (simp add: children_mlcl_full codeEquals_def str_def)
  have u: "DaapPacket [97, 100, 98] 0 = Inl EndOfPacketException"
    by (simp add: DaapPacket_def HEADER_LENGTH_def CODE_LENGTH_def SIZE_LENGTH_def)
  show ?thesis
    using DaapPacket_adbs_full m u
      catalog_response [of _ ?adbs ?mlcl 31 "Some 5" "str ''http://10.0.1.6:3690''" ?w
        EndOfPacketException]
      catalog_response [of "[97, 100, 98]" ?adbs ?mlcl 31 "Some 5"
        "str ''http://10.0.1.6:3690''" ?w EndOfPacketException]
    by (simp add: f media_item_spec_song DaapClient_def)
qed

text \<open>
  C8 as stated fails for two responses with status 200. The text \<open>adb\<close> of 3 code units
  does not decode as a chunk: the callback is called with status 400 and
  \<^verbatim>\<open>undefined\<close>. The chunk \<open>mlog\<close> with the only child \<open>mstt\<close> has no child \<open>mlcl\<close>: the
  handler ends with an uncaught \<open>TypeError\<close> and the callback is not called.
\<close>

theorem catalog_response_counterexample:
  "onreadystatechange
     (DatabaseRequestHandler (Some 31) (Some 5) (str ''http://10.0.1.6:3690'')) 200
     [97, 100, 98]
     (DaapClient (str ''10.0.1.6'') (Some 3690) True) =
   (None, (DaapClient (str ''10.0.1.6'') (Some 3690) True)
      \<lparr>trace := [StreamsCallback 400 None]\<rparr>) \<and>
   onreadystatechange
     (DatabaseRequestHandler (Some 31) (Some 5) (str ''http://10.0.1.6:3690'')) 200
     [109, 108, 111, 103, 0, 0, 0, 12, 109, 115, 116, 116, 0, 0, 0, 4, 0, 0, 0, 65480]
     (DaapClient (str ''10.0.1.6'') (Some 3690) True) =
   (Some TypeError, DaapClient (str ''10.0.1.6'') (Some 3690) True)"
proof -
  let ?p = "\<lparr>code = [109, 108, 111, 103],
      data = [109, 115, 116, 116, 0, 0, 0, 4, 0, 0, 0, 65480]\<rparr>"
  have n: "seekFirst ?p (str ''mlcl'') = Inr None"
    by (simp add: seekFirst_find children_mstt_only codeEquals_def str_def)
  have u: "DaapPacket [97, 100, 98] 0 = Inl EndOfPacketException"
    by (simp add: DaapPacket_def HEADER_LENGTH_def CODE_LENGTH_def SIZE_LENGTH_def)
  show ?thesis
    using n u DaapPacket_mstt_only
    by (simp add: onreadystatechange_def DaapClient_def)
qed

subsection \<open>The server string of the client\<close>

lemma bindE_Inr: "bindE m f = Inr y \<Longrightarrow> \<exists>x. m = Inr x \<and> f x = Inr y"
  by (cases m) (simp_all add: bindE_def)

lemma createDaapStream_uri:
  assumes "createDaapStream aSid srv mlit = Inr item"
  shows "prefix srv (uri item)"
proof -
  from assms obtain daapSongId songFormat where
    "uri item = srv @ str ''/databases/1/items/'' @ num_to_string daapSongId @ str ''.''
                  @ songFormat @ str ''?session-id='' @ nullable_to_string aSid"
    unfolding createDaapStream_def
    by (auto dest!: bindE_Inr)
  then show ?thesis by simp
qed

lemma audioStreams_loop_uri:
  "audioStreams_loop aSid srv mlits = Inr items \<Longrightarrow> \<forall>item \<in> set items. prefix srv (uri item)"
proof (induction mlits arbitrary: items)
  case Nil
  then show ?case by simp
next
  case (Cons mlit mlits)
  from Cons.prems obtain stream streams where
    s: "createDaapStream aSid srv mlit = Inr stream"
    and ss: "audioStreams_loop aSid srv mlits = Inr streams"
    and items: "items = stream # streams"
    by (auto dest!: bindE_Inr)
  from s have "prefix srv (uri stream)" by (rule createDaapStream_uri)
  with Cons.IH [OF ss] items show ?case by simp
qed

lemma database_response_trace:
  assumes "onreadystatechange (DatabaseRequestHandler aSid aRid srv) status text w = (e, w')"
  shows "inflight w' = inflight w \<and>
    (\<exists>new. trace w' = trace w @ new \<and>
       (\<forall>c items item. StreamsCallback c (Some items) \<in> set new \<longrightarrow> item \<in> set items \<longrightarrow>
          prefix srv (uri item)))"
  using assms
  by (auto simp: onreadystatechange_def dest: audioStreams_loop_uri
      split: if_splits sum.splits option.splits prod.splits)

lemma fetchStreams_trace:
  assumes "inflight w = []" and "fetchStreams_run replies w = (e, w')"
  shows "\<exists>new. trace w' = trace w @ new \<and>
       (\<forall>c items item. StreamsCallback c (Some items) \<in> set new \<longrightarrow> item \<in> set items \<longrightarrow>
          prefix (server w) (uri item))"
proof (cases "checkLogin w = None \<and> overrideMimeType w")
  case False
  with assms have "w' = w"
    by (auto simp: fetchStreams_run_def fetchStreams_def execute_def split: option.splits)
  then show ?thesis by simp
next
  case True
  let ?req = "DatabaseRequestHandler (sid w) (rid w) (server w)"
  let ?w1 = "w\<lparr>inflight := [?req],
     trace := trace w @ [Sent (request_url w ?req) (authorization w)]\<rparr>"
  from True assms have r: "w' = run replies ?w1"
    by (auto simp: fetchStreams_run_def fetchStreams_def execute_def)
  show ?thesis
  proof (cases replies)
    case Nil
    with r show ?thesis by simp
  next
    case (Cons reply rest)
    obtain e2 w2 where o: "onreadystatechange ?req (fst reply) (snd reply)
        (?w1\<lparr>inflight := []\<rparr>) = (e2, w2)"
      by (cases "onreadystatechange ?req (fst reply) (snd reply) (?w1\<lparr>inflight := []\<rparr>)")
    from database_response_trace [OF o] obtain new where
      i: "inflight w2 = []" and
      t: "trace w2 = trace w @ Sent (request_url w ?req) (authorization w) # new" and
      n: "\<forall>c items item. StreamsCallback c (Some items) \<in> set new \<longrightarrow> item \<in> set items \<longrightarrow>
          prefix (server w) (uri item)"
      by auto
    let ?w3 = "case e2 of None \<Rightarrow> w2 | Some x \<Rightarrow> w2\<lparr>trace := trace w2 @ [Uncaught x]\<rparr>"
    have "turn ?w1 reply = ?w3"
      using o by (simp add: turn_def)
    moreover have "inflight ?w3 = []"
      using i by (simp split: option.splits)
    ultimately have "w' = ?w3"
      using r Cons by (simp add: run_idle)
    then have "trace w' = trace w @ (Sent (request_url w ?req) (authorization w) # new @
        (case e2 of None \<Rightarrow> [] | Some x \<Rightarrow> [Uncaught x]))"
      using t by (simp split: option.splits)
    moreover have "\<forall>c items item.
        StreamsCallback c (Some items) \<in> set (Sent (request_url w ?req) (authorization w) # new @
          (case e2 of None \<Rightarrow> [] | Some x \<Rightarrow> [Uncaught x])) \<longrightarrow>
        item \<in> set items \<longrightarrow> prefix (server w) (uri item)"
      using n by (auto split: option.splits)
    ultimately show ?thesis by blast
  qed
qed

lemma malformed_base_not_good:
  assumes "prefix (str ''http://'' @ a @ str '':/3689'') u"
  shows "\<not> prefix (str ''http://'' @ a @ str '':3689'') u"
proof
  assume "prefix (str ''http://'' @ a @ str '':3689'') u"
  then obtain y where y: "u = (str ''http://'' @ a @ str '':3689'') @ y"
    by (auto simp: prefix_def)
  from assms obtain x where x: "u = (str ''http://'' @ a @ str '':/3689'') @ x"
    by (auto simp: prefix_def)
  from x y have "str '':/3689'' @ x = str '':3689'' @ y" by simp
  then show False by (simp add: str_def)
qed

text \<open>
  C10. A client constructed without a port has the server string
  \<open>"http://" + ip + ":/3689"\<close>, and every media item that a call of \<open>fetchStreams\<close> on
  such a client passes to the callback has a uri that begins with this string, and so
  does not begin with \<open>"http://" + ip + ":3689"\<close>.
\<close>

theorem omitted_port_server:
  "server (DaapClient a None b) = str ''http://'' @ a @ str '':/3689'' \<and>
   (server w = server (DaapClient a None b) \<and> inflight w = [] \<and>
    fetchStreams_run replies w = (e, w') \<longrightarrow>
      (\<exists>new. trace w' = trace w @ new \<and>
         (\<forall>c items item. StreamsCallback c (Some items) \<in> set new \<longrightarrow> item \<in> set items \<longrightarrow>
            prefix (str ''http://'' @ a @ str '':/3689'') (uri item) \<and>
            \<not> prefix (str ''http://'' @ a @ str '':3689'') (uri item))))"
proof (intro conjI impI)
  show s: "server (DaapClient a None b) = str ''http://'' @ a @ str '':/3689''"
    by (simp add: DaapClient_def)
  assume h: "server w = server (DaapClient a None b) \<and> inflight w = [] \<and>
    fetchStreams_run replies w = (e, w')"
  then have "inflight w = []" and "fetchStreams_run replies w = (e, w')" by simp_all
  from fetchStreams_trace [OF this] obtain new where
    t: "trace w' = trace w @ new" and
    n: "\<forall>c items item. StreamsCallback c (Some items) \<in> set new \<longrightarrow> item \<in> set items \<longrightarrow>
          prefix (server w) (uri item)"
    by blast
  from h s have "server w = str ''http://'' @ a @ str '':/3689''" by simp
  with n have "\<forall>c items item. StreamsCallback c (Some items) \<in> set new \<longrightarrow> item \<in> set items \<longrightarrow>
            prefix (str ''http://'' @ a @ str '':/3689'') (uri item) \<and>
            \<not> prefix (str ''http://'' @ a @ str '':3689'') (uri item)"
    using malformed_base_not_good by metis
  with t show "\<exists>new. trace w' = trace w @ new \<and>
         (\<forall>c items item. StreamsCallback c (Some items) \<in> set new \<longrightarrow> item \<in> set items \<longrightarrow>
            prefix (str ''http://'' @ a @ str '':/3689'') (uri item) \<and>
            \<not> prefix (str ''http://'' @ a @ str '':3689'') (uri item))"
    by blast
qed

lemma media_item_spec_song_omitted_port:
  "media_item_spec 31 (str ''http://10.0.1.6:/3689'')
     \<lparr>code = [109, 108, 105, 116],
      data = [109, 105, 105, 100, 0, 0, 0, 4, 0, 0, 0, 100,
              97, 115, 102, 109, 0, 0, 0, 3, 109, 112, 51,
              109, 105, 110, 109, 0, 0, 0, 4, 83, 111, 110, 103]\<rparr> =
   \<lparr>uri = str ''http://10.0.1.6:/3689/databases/1/items/100.mp3?session-id=31'',
    trackNumber = - 1, title = str ''Song'', album = [], artist = [], genre = [],
    id_field = str ''31-100'', duration = - 1, size_field = - 1, format = str ''mp3'',
    bitrate = - 1, year = - 1\<rparr>"
  by (simp add: media_item_spec_def field_int_def field_string_def children_mlit
      codeEquals_def convertToInt_def convertToString_def readUInt32_def charCodeAt_def
      js_and_def js_shl_def ToInt32_def num_to_string_def digits.simps
      digit_char_def str_def)

lemma fetchStreams_run_omitted_port:
  "fetchStreams_run
     [(200, [97, 100, 98, 115, 0, 0, 0, 51,
             109, 108, 99, 108, 0, 0, 0, 43,
             109, 108, 105, 116, 0, 0, 0, 35,
             109, 105, 105, 100, 0, 0, 0, 4, 0, 0, 0, 100,
             97, 115, 102, 109, 0, 0, 0, 3, 109, 112, 51,
             109, 105, 110, 109, 0, 0, 0, 4, 83, 111, 110, 103])]
     ((DaapClient (str ''10.0.1.6'') None True)\<lparr>sid := Some 31, rid := Some 5\<rparr>) =
   (None, (DaapClient (str ''10.0.1.6'') None True)
      \<lparr>sid := Some 31, rid := Some 5,
        trace :=
          [Sent (request_url (DaapClient (str ''10.0.1.6'') None True)
                  (DatabaseRequestHandler (Some 31) (Some 5) (str ''http://10.0.1.6:/3689'')))
             None,
           StreamsCallback 200 (Some
             [\<lparr>uri = str ''http://10.0.1.6:/3689/databases/1/items/100.mp3?session-id=31'',
               trackNumber = - 1, title = str ''Song'', album = [], artist = [], genre = [],
               id_field = str ''31-100'', duration = - 1, size_field = - 1,
               format = str ''mp3'', bitrate = - 1, year = - 1\<rparr>])]\<rparr>)"
proof -
  let ?adbs = "\<lparr>code = [97, 100, 98, 115],
        data = [109, 108, 99, 108, 0, 0, 0, 43,
                109, 108, 105, 116, 0, 0, 0, 35,
                109, 105, 105, 100, 0, 0, 0, 4, 0, 0, 0, 100,
                97, 115, 102, 109, 0, 0, 0, 3, 109, 112, 51,
                109, 105, 110, 109, 0, 0, 0, 4, 83, 111, 110, 103]\<rparr>"
  let ?mlcl = "\<lparr>code = [109, 108, 99, 108],
     data = [109, 108, 105, 116, 0, 0, 0, 35,
             109, 105, 105, 100, 0, 0, 0, 4, 0, 0, 0, 100,
             97, 115, 102, 109, 0, 0, 0, 3, 109, 112, 51,
             109, 105, 110, 109, 0, 0, 0, 4, 83, 111, 110, 103]\<rparr>"
  have m: "seekFirst ?adbs (str ''mlcl'') = Inr (Some ?mlcl)"
    by (simp add: seekFirst_find children_adbs codeEquals_def str_def)
  have f: "filter (\<lambda>c. codeEquals c (str ''mlit'')) (children ?mlcl) =
      [\<lparr>code = [109, 108, 105, 116],
        data = [109, 105, 105, 100, 0, 0, 0, 4, 0, 0, 0, 100,
                97, 115, 102, 109, 0, 0, 0, 3, 109, 112, 51,
                109, 105, 110, 109, 0, 0, 0, 4, 83, 111, 110, 103]\<rparr>]"
    by (simp add: children_mlcl codeEquals_def str_def)
  have s: "str ''http://'' @ str ''10.0.1.6'' @ str '':/3689'' = str ''http://10.0.1.6:/3689''"
    by (simp add: str_def)
  show ?thesis
    by (simp add: fetchStreams_run_def fetchStreams_def checkLogin_def execute_def turn_def
        onreadystatechange_def DaapClient_def s DaapPacket_adbs m seek_filter f
        createDaapStream_spec bindE_def media_item_spec_song_omitted_port request_url_def
        authorization_def)
qed

theorem omitted_port_server_witness:
  "server (DaapClient (str ''10.0.1.6'') None True) = str ''http://10.0.1.6:/3689'' \<and>
   (\<exists>new. trace (snd (fetchStreams_run
       [(200, [97, 100, 98, 115, 0, 0, 0, 51,
               109, 108, 99, 108, 0, 0, 0, 43,
               109, 108, 105, 116, 0, 0, 0, 35,
               109, 105, 105, 100, 0, 0, 0, 4, 0, 0, 0, 100,
               97, 115, 102, 109, 0, 0, 0, 3, 109, 112, 51,
               109, 105, 110, 109, 0, 0, 0, 4, 83, 111, 110, 103])]
       ((DaapClient (str ''10.0.1.6'') None True)\<lparr>sid := Some 31, rid := Some 5\<rparr>))) =
     Sent (request_url (DaapClient (str ''10.0.1.6'') None True)
            (DatabaseRequestHandler (Some 31) (Some 5) (str ''http://10.0.1.6:/3689''))) None
     # new) \<and>
   prefix (str ''http://10.0.1.6:/3689'')
     (str ''http://10.0.1.6:/3689/databases/1/items/100.mp3?session-id=31'') \<and>
   \<not> prefix (str ''http://10.0.1.6:3689'')
     (str ''http://10.0.1.6:/3689/databases/1/items/100.mp3?session-id=31'')"
proof -
  let ?text = "[97, 100, 98, 115, 0, 0, 0, 51,
               109, 108, 99, 108, 0, 0, 0, 43,
               109, 108, 105, 116, 0, 0, 0, 35,
               109, 105, 105, 100, 0, 0, 0, 4, 0, 0, 0, 100,
               97, 115, 102, 109, 0, 0, 0, 3, 109, 112, 51,
               109, 105, 110, 109, 0, 0, 0, 4, 83, 111, 110, 103] :: jsstring"
  let ?w = "(DaapClient (str ''10.0.1.6'') None True)\<lparr>sid := Some 31, rid := Some 5\<rparr>"
  let ?item = "\<lparr>uri = str ''http://10.0.1.6:/3689/databases/1/items/100.mp3?session-id=31'',
               trackNumber = - 1, title = str ''Song'', album = [], artist = [], genre = [],
               id_field = str ''31-100'', duration = - 1, size_field = - 1,
               format = str ''mp3'', bitrate = - 1, year = - 1\<rparr>"
  let ?sent = "Sent (request_url (DaapClient (str ''10.0.1.6'') None True)
            (DatabaseRequestHandler (Some 31) (Some 5) (str ''http://10.0.1.6:/3689''))) None"
  let ?w' = "(DaapClient (str ''10.0.1.6'') None True)
      \<lparr>sid := Some 31, rid := Some 5, trace := [?sent, StreamsCallback 200 (Some [?item])]\<rparr>"
  have s: "str ''http://'' @ str ''10.0.1.6'' @ str '':/3689'' = str ''http://10.0.1.6:/3689''"
    "str ''http://'' @ str ''10.0.1.6'' @ str '':3689'' = str ''http://10.0.1.6:3689''"
    by (simp_all add: str_def)
  have r: "fetchStreams_run [(200, ?text)] ?w = (None, ?w')"
    by (rule fetchStreams_run_omitted_port)
  have h: "server ?w = server (DaapClient (str ''10.0.1.6'') None True) \<and> inflight ?w = [] \<and>
    fetchStreams_run [(200, ?text)] ?w = (None, ?w')"
    using r by (simp add: DaapClient_def)
  from omitted_port_server [of "str ''10.0.1.6''" True ?w "[(200, ?text)]" None ?w'] h
  have sv: "server (DaapClient (str ''10.0.1.6'') None True) = str ''http://10.0.1.6:/3689''"
    and "\<exists>new. trace ?w' = trace ?w @ new \<and>
         (\<forall>c items item. StreamsCallback c (Some items) \<in> set new \<longrightarrow> item \<in> set items \<longrightarrow>
            prefix (str ''http://10.0.1.6:/3689'') (uri item) \<and>
            \<not> prefix (str ''http://10.0.1.6:3689'') (uri item))"
    by (simp_all only: s) 
  then obtain new where
    t: "trace ?w' = trace ?w @ new" and
    n: "\<forall>c items item. StreamsCallback c (Some items) \<in> set new \<longrightarrow> item \<in> set items \<longrightarrow>
            prefix (str ''http://10.0.1.6:/3689'') (uri item) \<and>
            \<not> prefix (str ''http://10.0.1.6:3689'') (uri item)"
    by blast
  from t have new: "new = [?sent, StreamsCallback 200 (Some [?item])]"
    by (simp add: DaapClient_def)
  from n new have "prefix (str ''http://10.0.1.6:/3689'') (uri ?item) \<and>
            \<not> prefix (str ''http://10.0.1.6:3689'') (uri ?item)"
    by simp
  then have p: "prefix (str ''http://10.0.1.6:/3689'')
     (str ''http://10.0.1.6:/3689/databases/1/items/100.mp3?session-id=31'')"
    "\<not> prefix (str ''http://10.0.1.6:3689'')
     (str ''http://10.0.1.6:/3689/databases/1/items/100.mp3?session-id=31'')"
    by simp_all
  have "trace (snd (fetchStreams_run [(200, ?text)] ?w)) = ?sent # [StreamsCallback 200 (Some [?item])]"
    by (simp add: r)
  then have "\<exists>new. trace (snd (fetchStreams_run [(200, ?text)] ?w)) = ?sent # new"
    by blast
  with sv p show ?thesis by blast
qed

end
